theory Spec2Isabelle
  imports Complex_Main "HOL-Library.Sublist" "HOL-Library.Log_Nat"
begin

section \<open>Errors, strings and effectful computations\<close>

text \<open>
  A thrown JavaScript value is modelled by the three properties the code ever reads from
  it: \<open>error.message\<close>, \<open>error.details\<close> and \<open>error.cause.reason\<close>; \<open>None\<close> is
  \<open>undefined\<close>. The value \<open>undefined\<close> itself, when thrown, reads as \<open>undefined\<close> on all
  three under optional chaining.
\<close>

datatype error = Error (message: "string option") (details: "string option") (reason: "string option")

definition js_undefined :: error where
  "js_undefined = Error None None None"

definition lower_char :: "char \<Rightarrow> char" where
  "lower_char c = (let n = (of_char c :: nat) in if 65 \<le> n \<and> n \<le> 90 then char_of (n + 32) else c)"

definition toLowerCase :: "string \<Rightarrow> string" where
  "toLowerCase s = map lower_char s"

text \<open>\<open>s.includes(p)\<close>: \<open>p\<close> occurs in \<open>s\<close> as a contiguous substring.\<close>

definition str_includes :: "string \<Rightarrow> string \<Rightarrow> bool" where
  "str_includes s p = sublist p s"

text \<open>
  An \<open>async\<close> function is a state transformer that either throws (\<open>Inl\<close>) or returns
  (\<open>Inr\<close>). Execution is single-threaded, so awaiting is sequencing.
\<close>

type_synonym ('s, 'a) prog = "'s \<Rightarrow> (error + 'a) \<times> 's"

definition ret :: "'a \<Rightarrow> ('s, 'a) prog" where
  "ret x = (\<lambda>s. (Inr x, s))"

definition throw :: "error \<Rightarrow> ('s, 'a) prog" where
  "throw e = (\<lambda>s. (Inl e, s))"

definition bind :: "('s, 'a) prog \<Rightarrow> ('a \<Rightarrow> ('s, 'b) prog) \<Rightarrow> ('s, 'b) prog" where
  "bind m f = (\<lambda>s. case m s of (Inl e, s') \<Rightarrow> (Inl e, s') | (Inr x, s') \<Rightarrow> f x s')"

definition try_catch :: "('s, 'a) prog \<Rightarrow> (error \<Rightarrow> ('s, 'a) prog) \<Rightarrow> ('s, 'a) prog" where
  "try_catch m h = (\<lambda>s. case m s of (Inl e, s') \<Rightarrow> h e s' | (Inr x, s') \<Rightarrow> (Inr x, s'))"

definition effect :: "('s \<Rightarrow> 's) \<Rightarrow> ('s, unit) prog" where
  "effect f = (\<lambda>s. (Inr (), f s))"

section \<open>RetryExecutor (utils/retry.ts)\<close>

text \<open>
  The options object. A field is \<open>None\<close> when the object has no such key, so that the
  spread \<open>{ ...DEFAULT_OPTIONS, ...options }\<close> leaves the default in place. A key that is
  present with the value \<open>undefined\<close>, which would replace the default, is not represented;
  no caller in the program passes one.
\<close>

record 's RetryOptions =
  maxAttempts :: "nat option"
  initialDelay :: "nat option"
  maxDelay :: "nat option"
  backoffMultiplier :: "nat option"
  shouldRetry :: "(error \<Rightarrow> bool) option"
  onRetry :: "(nat \<Rightarrow> error \<Rightarrow> 's \<Rightarrow> 's) option"

definition no_options :: "'s RetryOptions" where
  "no_options = \<lparr>maxAttempts = None, initialDelay = None, maxDelay = None,
     backoffMultiplier = None, shouldRetry = None, onRetry = None\<rparr>"

definition DEFAULT_maxAttempts :: nat where "DEFAULT_maxAttempts = 3"
definition DEFAULT_initialDelay :: nat where "DEFAULT_initialDelay = 1000"
definition DEFAULT_maxDelay :: nat where "DEFAULT_maxDelay = 30000"
definition DEFAULT_backoffMultiplier :: nat where "DEFAULT_backoffMultiplier = 2"

definition or_default :: "'a option \<Rightarrow> 'a \<Rightarrow> 'a" where
  "or_default v d = (case v of None \<Rightarrow> d | Some x \<Rightarrow> x)"

definition defaultShouldRetry :: "error \<Rightarrow> bool" where
  "defaultShouldRetry err =
     (let errorMessage = toLowerCase (or_default (message err) []);
          errorDetails = toLowerCase (or_default (details err) [])
      in if str_includes errorMessage ''timeout'' \<or> str_includes errorDetails ''timeout'' then True
         else if str_includes errorMessage ''econnrefused'' \<or> str_includes errorMessage ''econnreset'' then True
         else if str_includes errorMessage ''rate limit'' \<or> str_includes errorMessage ''too many requests'' then True
         else if str_includes errorMessage ''network'' \<or> str_includes errorMessage ''fetch failed'' then True
         else if str_includes errorMessage ''block requested not found''
                 \<or> str_includes errorDetails ''block requested not found'' then True
         else if str_includes errorMessage ''revert'' then
                (if str_includes errorMessage ''timeout'' then False else False)
         else False)"

text \<open>
  The \<open>for\<close> loop of \<open>retryWithBackoff\<close>. \<open>slp\<close> is \<open>sleep\<close>; \<open>lastError\<close> is \<open>None\<close> while
  the variable is still \<open>undefined\<close>.
\<close>

function retry_loop ::
  "(nat \<Rightarrow> 's \<Rightarrow> 's) \<Rightarrow> ('s, 'a) prog \<Rightarrow> nat \<Rightarrow> nat \<Rightarrow> nat \<Rightarrow> (error \<Rightarrow> bool)
     \<Rightarrow> (nat \<Rightarrow> error \<Rightarrow> 's \<Rightarrow> 's) option \<Rightarrow> error option \<Rightarrow> nat \<Rightarrow> nat \<Rightarrow> ('s, 'a) prog" where
  "retry_loop slp fn maxA maxD mult sr onr lastError delay attempt s =
     (if attempt \<le> maxA then
        (case fn s of
           (Inr v, s1) \<Rightarrow> (Inr v, s1)
         | (Inl e, s1) \<Rightarrow>
             if attempt = maxA then (Inl e, s1)
             else if sr e then
               (let s2 = (case onr of None \<Rightarrow> s1 | Some cb \<Rightarrow> cb attempt e s1);
                    s3 = slp delay s2
                in retry_loop slp fn maxA maxD mult sr onr (Some e) (min (delay * mult) maxD)
                     (attempt + 1) s3)
             else (Inl e, s1))
      else (Inl (or_default lastError js_undefined), s))"
  by pat_completeness auto
termination
  by (relation "measure (\<lambda>(slp, fn, maxA, maxD, mult, sr, onr, lastError, delay, attempt, s).
        Suc maxA - attempt)") auto

declare retry_loop.simps [simp del]

definition retryWithBackoff ::
  "(nat \<Rightarrow> 's \<Rightarrow> 's) \<Rightarrow> ('s, 'a) prog \<Rightarrow> 's RetryOptions \<Rightarrow> ('s, 'a) prog" where
  "retryWithBackoff slp fn options =
     retry_loop slp fn
       (or_default (maxAttempts options) DEFAULT_maxAttempts)
       (or_default (maxDelay options) DEFAULT_maxDelay)
       (or_default (backoffMultiplier options) DEFAULT_backoffMultiplier)
       (or_default (shouldRetry options) defaultShouldRetry)
       (onRetry options)
       None
       (or_default (initialDelay options) DEFAULT_initialDelay)
       1"

subsection \<open>Operations with a scripted outcome per invocation\<close>

text \<open>
  The state is a pair: how often the operation has been invoked, and the total time slept.
  The \<open>k\<close>-th invocation (counting from 0) yields \<open>outcome k\<close>.
\<close>

definition scripted_op :: "(nat \<Rightarrow> error + int) \<Rightarrow> (nat \<times> nat, int) prog" where
  "scripted_op outcome = (\<lambda>(calls, slept). (outcome calls, (Suc calls, slept)))"

definition tick :: "nat \<Rightarrow> nat \<times> nat \<Rightarrow> nat \<times> nat" where
  "tick d = (\<lambda>(calls, slept). (calls, slept + d))"


definition invalid_signature :: error where
  "invalid_signature = Error (Some ''Invalid Signature'') (Some ''nonce too low'') None"


definition broken :: "nat \<Rightarrow> error + int" where
  "broken k = Inl invalid_signature"



text \<open>The patterns the default classifier looks for.\<close>

definition recognised_patterns :: "string list" where
  "recognised_patterns = [''timeout'', ''econnrefused'', ''econnreset'', ''rate limit'',
     ''too many requests'', ''network'', ''fetch failed'', ''block requested not found'', ''revert'']"

section \<open>The forked node as seen through the client\<close>

text \<open>
  Addresses, storage keys and 32-byte storage values are the numbers their hexadecimal
  strings denote; a \<open>bigint\<close> is an \<open>int\<close>. The client (viem on top of the forked node) is
  a parameter: each of its methods is an arbitrary deterministic operation on a node state
  \<open>'n\<close> that returns or throws. \<open>client.request\<close> with method \<open>eth_getStorageAt\<close> and
  \<open>client.getStorageAt\<close> are one operation, as are \<open>anvil_setStorageAt\<close> and
  \<open>client.setStorageAt\<close>. The three operations the code races against a timer yield
  \<open>None\<close> when the timer fires first. The record also carries the two other things the
  code takes from its environment: the hash \<open>keccak256\<close> applied to two concatenated 32-byte
  words, and \<open>TEST_ACCOUNT\<close>.
\<close>

type_synonym address = nat

record tx =
  tx_account :: address
  tx_to :: address
  tx_data :: string
  tx_value :: int
  tx_gas :: "int option"

datatype receipt_status = TxSuccess | TxReverted

record receipt =
  r_status :: receipt_status
  r_gasUsed :: int
  r_blockNumber :: int

record 'n env =
  c_getStorageAt :: "address \<Rightarrow> nat \<Rightarrow> ('n, nat) prog"
  c_setStorageAt :: "address \<Rightarrow> nat \<Rightarrow> nat \<Rightarrow> ('n, unit) prog"
  c_balanceOf :: "address \<Rightarrow> address \<Rightarrow> ('n, int) prog"
  c_allowance :: "address \<Rightarrow> address \<Rightarrow> address \<Rightarrow> ('n, int) prog"
  c_hardhat_setBalance :: "address \<Rightarrow> int \<Rightarrow> ('n, unit) prog"
  c_impersonateAccount :: "address \<Rightarrow> ('n, unit) prog"
  c_stopImpersonatingAccount :: "address \<Rightarrow> ('n, unit) prog"
  c_deal :: "address \<Rightarrow> address \<Rightarrow> int \<Rightarrow> ('n, nat) prog"
  c_approve :: "address \<Rightarrow> address \<Rightarrow> int \<Rightarrow> ('n, nat) prog"
  c_waitForTransactionReceipt :: "nat \<Rightarrow> ('n, receipt option) prog"
  c_setBalance :: "address \<Rightarrow> int \<Rightarrow> ('n, unit) prog"
  c_getBalance :: "address \<Rightarrow> ('n, int) prog"
  c_getBytecode :: "address \<Rightarrow> ('n, string option) prog"
  c_sendTransaction :: "tx \<Rightarrow> ('n, nat option) prog"
  c_call :: "tx \<Rightarrow> int \<Rightarrow> ('n, string) prog"
  c_reset :: "int \<Rightarrow> ('n, unit option) prog"
  c_getBlockNumber :: "('n, int) prog"
  keccak256 :: "nat \<Rightarrow> nat \<Rightarrow> nat"
  TEST_ACCOUNT :: address

text \<open>Every request to the client and every sleep is recorded, most recent first.\<close>

datatype event =
    GetStorageAt address nat
  | SetStorageAt address nat nat
  | BalanceOf address address
  | Allowance address address address
  | HardhatSetBalance address int
  | ImpersonateAccount address
  | StopImpersonatingAccount address
  | Deal address address int
  | Approve address address int
  | WaitForTransactionReceipt nat
  | SetBalance address int
  | GetBalance address
  | GetBytecode address
  | SendTransaction tx
  | Call tx int
  | Reset int
  | GetBlockNumber
  | Sleep nat

text \<open>
  The world: the node, the record of requests, and the process-wide
  \<open>BALANCE_SLOT_CACHE\<close>.
\<close>

record 'n world =
  node :: 'n
  log :: "event list"
  cache :: "address \<rightharpoonup> nat"

definition request :: "event \<Rightarrow> ('n, 'a) prog \<Rightarrow> ('n world, 'a) prog" where
  "request ev op = (\<lambda>w. case op (node w) of (r, n') \<Rightarrow> (r, w\<lparr>node := n', log := ev # log w\<rparr>))"

definition sleep_for :: "nat \<Rightarrow> 'n world \<Rightarrow> 'n world" where
  "sleep_for ms w = w\<lparr>log := Sleep ms # log w\<rparr>"

definition sleep :: "nat \<Rightarrow> ('n world, unit) prog" where
  "sleep ms = effect (sleep_for ms)"

definition cache_put :: "address \<Rightarrow> nat \<Rightarrow> ('n world, unit) prog" where
  "cache_put token slot = effect (\<lambda>w. w\<lparr>cache := (cache w)(token \<mapsto> slot)\<rparr>)"

definition cache_get :: "address \<Rightarrow> ('n world, nat option) prog" where
  "cache_get token = (\<lambda>w. (Inr (cache w token), w))"

definition getStorageAt :: "'n env \<Rightarrow> address \<Rightarrow> nat \<Rightarrow> ('n world, nat) prog" where
  "getStorageAt cl a k = request (GetStorageAt a k) (c_getStorageAt cl a k)"

definition setStorageAt :: "'n env \<Rightarrow> address \<Rightarrow> nat \<Rightarrow> nat \<Rightarrow> ('n world, unit) prog" where
  "setStorageAt cl a k v = request (SetStorageAt a k v) (c_setStorageAt cl a k v)"

definition balanceOf :: "'n env \<Rightarrow> address \<Rightarrow> address \<Rightarrow> ('n world, int) prog" where
  "balanceOf cl token holder = request (BalanceOf token holder) (c_balanceOf cl token holder)"

definition allowance :: "'n env \<Rightarrow> address \<Rightarrow> address \<Rightarrow> address \<Rightarrow> ('n world, int) prog" where
  "allowance cl token owner spender =
     request (Allowance token owner spender) (c_allowance cl token owner spender)"

definition hardhat_setBalance :: "'n env \<Rightarrow> address \<Rightarrow> int \<Rightarrow> ('n world, unit) prog" where
  "hardhat_setBalance cl a v = request (HardhatSetBalance a v) (c_hardhat_setBalance cl a v)"

definition impersonateAccount :: "'n env \<Rightarrow> address \<Rightarrow> ('n world, unit) prog" where
  "impersonateAccount cl a = request (ImpersonateAccount a) (c_impersonateAccount cl a)"

definition stopImpersonatingAccount :: "'n env \<Rightarrow> address \<Rightarrow> ('n world, unit) prog" where
  "stopImpersonatingAccount cl a =
     request (StopImpersonatingAccount a) (c_stopImpersonatingAccount cl a)"

definition deal :: "'n env \<Rightarrow> address \<Rightarrow> address \<Rightarrow> int \<Rightarrow> ('n world, nat) prog" where
  "deal cl token holder amount = request (Deal token holder amount) (c_deal cl token holder amount)"

definition approve :: "'n env \<Rightarrow> address \<Rightarrow> address \<Rightarrow> int \<Rightarrow> ('n world, nat) prog" where
  "approve cl token spender amount =
     request (Approve token spender amount) (c_approve cl token spender amount)"

definition waitForTransactionReceipt :: "'n env \<Rightarrow> nat \<Rightarrow> ('n world, receipt option) prog" where
  "waitForTransactionReceipt cl h =
     request (WaitForTransactionReceipt h) (c_waitForTransactionReceipt cl h)"

definition setBalance :: "'n env \<Rightarrow> address \<Rightarrow> int \<Rightarrow> ('n world, unit) prog" where
  "setBalance cl a v = request (SetBalance a v) (c_setBalance cl a v)"

definition getBalance :: "'n env \<Rightarrow> address \<Rightarrow> ('n world, int) prog" where
  "getBalance cl a = request (GetBalance a) (c_getBalance cl a)"

definition getBytecode :: "'n env \<Rightarrow> address \<Rightarrow> ('n world, string option) prog" where
  "getBytecode cl a = request (GetBytecode a) (c_getBytecode cl a)"

definition sendTransaction :: "'n env \<Rightarrow> tx \<Rightarrow> ('n world, nat option) prog" where
  "sendTransaction cl t = request (SendTransaction t) (c_sendTransaction cl t)"

definition call :: "'n env \<Rightarrow> tx \<Rightarrow> int \<Rightarrow> ('n world, string) prog" where
  "call cl t b = request (Call t b) (c_call cl t b)"

definition reset :: "'n env \<Rightarrow> int \<Rightarrow> ('n world, unit option) prog" where
  "reset cl b = request (Reset b) (c_reset cl b)"

definition getBlockNumber :: "'n env \<Rightarrow> ('n world, int) prog" where
  "getBlockNumber cl = request GetBlockNumber (c_getBlockNumber cl)"

text \<open>
  \<open>Promise.race\<close> of a request against a timer that rejects with \<open>Error(msg)\<close>.
\<close>

definition race :: "('s, 'a option) prog \<Rightarrow> string \<Rightarrow> ('s, 'a) prog" where
  "race p msg = bind p (\<lambda>r. case r of None \<Rightarrow> throw (Error (Some msg) None None) | Some v \<Rightarrow> ret v)"

text \<open>
  A loop \<open>for (const x of xs) { ... }\<close> whose body either falls through or continues
  (\<open>None\<close>), returns from the enclosing function (\<open>Some\<close>), or throws.
\<close>

fun for_each :: "'a list \<Rightarrow> ('a \<Rightarrow> ('s, 'r option) prog) \<Rightarrow> ('s, 'r option) prog" where
  "for_each [] body s = (Inr None, s)"
| "for_each (x # xs) body s =
     (case body x s of
        (Inl e, s') \<Rightarrow> (Inl e, s')
      | (Inr None, s') \<Rightarrow> for_each xs body s'
      | (Inr (Some v), s') \<Rightarrow> (Inr (Some v), s'))"

text \<open>Statements in sequence, the first of which may already have returned.\<close>

definition or_else :: "('s, 'r option) prog \<Rightarrow> ('s, 'r option) prog \<Rightarrow> ('s, 'r option) prog" where
  "or_else m1 m2 = bind m1 (\<lambda>r. case r of None \<Rightarrow> m2 | Some v \<Rightarrow> ret (Some v))"

text \<open>
  viem's \<open>toHex\<close> of a \<open>bigint\<close> throws on a negative value, and \<open>pad(..., {size: 32})\<close>
  throws on more than 32 bytes.
\<close>

definition out_of_range :: error where
  "out_of_range = Error (Some ''Number is not in safe integer range'') None None"

definition toHex :: "int \<Rightarrow> ('s, int) prog" where
  "toHex v = (if v < 0 then throw out_of_range else ret v)"

definition toHex32 :: "int \<Rightarrow> ('s, nat) prog" where
  "toHex32 v = (if v < 0 then throw out_of_range
                else if v < 2 ^ 256 then ret (nat v) else throw out_of_range)"

section \<open>BalanceInjector (compare.ts, consts.ts)\<close>

definition COMMON_SLOTS_FOR_BALANCE_SET :: "nat list" where
  "COMMON_SLOTS_FOR_BALANCE_SET =
     [0, 1, 2, 3, 4, 5, 6, 7, 8, 9, 10,
      11, 12, 13, 14, 15, 16, 17, 18, 19, 20,
      51, 52, 101, 102, 103, 104, 105,
      50, 100, 150, 200, 255]"

definition NATIVE_TOKEN_ADDRESS :: address where
  "NATIVE_TOKEN_ADDRESS = 0"

definition isNativeToken :: "address \<Rightarrow> bool" where
  "isNativeToken tokenAddress = (tokenAddress = NATIVE_TOKEN_ADDRESS)"

definition testAmount :: nat where
  "testAmount = 123456789123456789123456789"

definition findBalanceSlot_probe :: "'n env \<Rightarrow> address \<Rightarrow> address \<Rightarrow> nat \<Rightarrow> ('n world, nat option) prog" where
  "findBalanceSlot_probe cl tokenAddress holderAddress slot =
     try_catch
       (let balanceSlot = keccak256 cl holderAddress slot in
        bind (setStorageAt cl tokenAddress balanceSlot testAmount) (\<lambda>_.
        bind (sleep 100) (\<lambda>_.
        bind (balanceOf cl tokenAddress holderAddress) (\<lambda>balance.
        if balance = int testAmount then
          bind (cache_put tokenAddress slot) (\<lambda>_.
          bind (setStorageAt cl tokenAddress balanceSlot 0) (\<lambda>_.
          ret (Some slot)))
        else ret None))))
       (\<lambda>_. ret None)"

definition findBalanceSlot :: "'n env \<Rightarrow> address \<Rightarrow> address \<Rightarrow> ('n world, nat option) prog" where
  "findBalanceSlot cl tokenAddress holderAddress =
     bind (cache_get tokenAddress) (\<lambda>cached.
     case cached of
       Some slot \<Rightarrow> ret (Some slot)
     | None \<Rightarrow> for_each COMMON_SLOTS_FOR_BALANCE_SET
                 (findBalanceSlot_probe cl tokenAddress holderAddress))"

definition PROXY_SLOTS :: "nat list" where
  "PROXY_SLOTS =
     [0x360894a13ba1a3210667c828492db98dca3e2076cc3735a920a3ca505d382bbc,
      0x5f3b5dfeb7b28cdbd7faba78963ee202a494e2a2cc8c9978b5e1354f480f6e77,
      0x7050c9e0f4ca769c69bd3a8ef740bc37934f8e2c036e5a723fd8ee048ed3f8c3]"

definition detectProxyImplementation :: "'n env \<Rightarrow> address \<Rightarrow> ('n world, address option) prog" where
  "detectProxyImplementation cl addr =
     for_each PROXY_SLOTS (\<lambda>slot.
       try_catch
         (bind (getStorageAt cl addr slot) (\<lambda>implAddress.
          if implAddress = 0 then ret None else ret (Some (implAddress mod 2 ^ 160))))
         (\<lambda>_. ret None))"

text \<open>The seven methods of \<open>setERC20Balance\<close>, in the order of the source.\<close>

definition method1_probe :: "'n env \<Rightarrow> address \<Rightarrow> address \<Rightarrow> int \<Rightarrow> nat \<Rightarrow> ('n world, bool option) prog" where
  "method1_probe cl tokenAddress holderAddress amount slot =
     try_catch
       (let storageSlot = keccak256 cl holderAddress slot in
        bind (getStorageAt cl tokenAddress storageSlot) (\<lambda>originalValue.
        bind (toHex32 amount) (\<lambda>v.
        bind (setStorageAt cl tokenAddress storageSlot v) (\<lambda>_.
        bind (sleep 1000) (\<lambda>_.
        bind (balanceOf cl tokenAddress holderAddress) (\<lambda>balance.
        if balance \<ge> amount then
          bind (cache_put tokenAddress slot) (\<lambda>_. ret (Some True))
        else
          bind (setStorageAt cl tokenAddress storageSlot originalValue) (\<lambda>_. ret None)))))))
       (\<lambda>_. ret None)"

definition method1 :: "'n env \<Rightarrow> address \<Rightarrow> address \<Rightarrow> int \<Rightarrow> ('n world, bool option) prog" where
  "method1 cl tokenAddress holderAddress amount =
     try_catch
       (for_each COMMON_SLOTS_FOR_BALANCE_SET (method1_probe cl tokenAddress holderAddress amount))
       (\<lambda>_. ret None)"

definition method2 :: "'n env \<Rightarrow> address \<Rightarrow> address \<Rightarrow> int \<Rightarrow> ('n world, bool option) prog" where
  "method2 cl tokenAddress holderAddress amount =
     try_catch
       (bind (toHex (amount * 10 ^ 18)) (\<lambda>v.
        bind (hardhat_setBalance cl holderAddress v) (\<lambda>_.
        bind (balanceOf cl tokenAddress holderAddress) (\<lambda>balance.
        if balance \<ge> amount then ret (Some True) else ret None))))
       (\<lambda>_. ret None)"

definition method3 :: "'n env \<Rightarrow> address \<Rightarrow> address \<Rightarrow> int \<Rightarrow> ('n world, bool option) prog" where
  "method3 cl tokenAddress holderAddress amount =
     try_catch
       (bind (impersonateAccount cl holderAddress) (\<lambda>_.
        or_else
          (try_catch
             (bind (deal cl tokenAddress holderAddress amount) (\<lambda>_.
              bind (balanceOf cl tokenAddress holderAddress) (\<lambda>balance.
              if balance \<ge> amount then
                bind (stopImpersonatingAccount cl holderAddress) (\<lambda>_. ret (Some True))
              else ret None)))
             (\<lambda>_. ret None))
          (bind (stopImpersonatingAccount cl holderAddress) (\<lambda>_. ret None))))
       (\<lambda>_. ret None)"

definition ERC20_NAMESPACE_ID :: nat where
  "ERC20_NAMESPACE_ID = 0x52c63247e1f47db19d5ce0460030c497f067ca4cebf71ba98eeadabe20bace00"

definition method4 :: "'n env \<Rightarrow> address \<Rightarrow> address \<Rightarrow> int \<Rightarrow> ('n world, bool option) prog" where
  "method4 cl tokenAddress holderAddress amount =
     try_catch
       (let balanceStorageSlot = keccak256 cl holderAddress ERC20_NAMESPACE_ID in
        bind (toHex32 amount) (\<lambda>v.
        bind (setStorageAt cl tokenAddress balanceStorageSlot v) (\<lambda>_.
        bind (sleep 1000) (\<lambda>_.
        bind (balanceOf cl tokenAddress holderAddress) (\<lambda>balance.
        if balance \<ge> amount then ret (Some True) else ret None)))))
       (\<lambda>_. ret None)"

definition method5 :: "'n env \<Rightarrow> address \<Rightarrow> address \<Rightarrow> int \<Rightarrow> ('n world, bool option) prog" where
  "method5 cl tokenAddress holderAddress amount =
     try_catch
       (bind (findBalanceSlot cl tokenAddress holderAddress) (\<lambda>found.
        case found of
          None \<Rightarrow> ret None
        | Some slot \<Rightarrow>
            (let balanceSlot = keccak256 cl holderAddress slot in
             bind (getStorageAt cl tokenAddress balanceSlot) (\<lambda>originalValue.
             bind (toHex32 amount) (\<lambda>v.
             bind (setStorageAt cl tokenAddress balanceSlot v) (\<lambda>_.
             bind (sleep 1000) (\<lambda>_.
             bind (balanceOf cl tokenAddress holderAddress) (\<lambda>actualBalance.
             if actualBalance \<ge> amount then ret (Some True)
             else bind (setStorageAt cl tokenAddress balanceSlot originalValue) (\<lambda>_. ret None)))))))))
       (\<lambda>_. ret None)"

definition method6_balance :: "'n env \<Rightarrow> address \<Rightarrow> address \<Rightarrow> int \<Rightarrow> nat \<Rightarrow> ('n world, bool option) prog" where
  "method6_balance cl tokenAddress holderAddress amount balSlot =
     (let balanceSlot = keccak256 cl holderAddress balSlot in
      bind (toHex32 amount) (\<lambda>v.
      bind (setStorageAt cl tokenAddress balanceSlot v) (\<lambda>_.
      bind (balanceOf cl tokenAddress holderAddress) (\<lambda>balance.
      if balance \<ge> amount then
        bind (cache_put tokenAddress balSlot) (\<lambda>_. ret (Some True))
      else ret None))))"

definition method6 :: "'n env \<Rightarrow> address \<Rightarrow> address \<Rightarrow> int \<Rightarrow> ('n world, bool option) prog" where
  "method6 cl tokenAddress holderAddress amount =
     try_catch
       (for_each [2, 3, 4, 5, 6, 7, 8] (\<lambda>supplySlot.
          try_catch
            (let largeTotalSupply = amount * 1000 in
             bind (toHex32 largeTotalSupply) (\<lambda>v.
             bind (setStorageAt cl tokenAddress supplySlot v) (\<lambda>_.
             for_each [0, 1, 2, 3, 4, 5] (method6_balance cl tokenAddress holderAddress amount))))
            (\<lambda>_. ret None)))
       (\<lambda>_. ret None)"

definition method7_probe :: "'n env \<Rightarrow> address \<Rightarrow> address \<Rightarrow> int \<Rightarrow> nat \<Rightarrow> ('n world, bool option) prog" where
  "method7_probe cl tokenAddress holderAddress amount slot =
     try_catch
       (let balanceSlotReverse = keccak256 cl slot holderAddress in
        bind (getStorageAt cl tokenAddress balanceSlotReverse) (\<lambda>originalValue.
        bind (toHex32 amount) (\<lambda>v.
        bind (setStorageAt cl tokenAddress balanceSlotReverse v) (\<lambda>_.
        bind (balanceOf cl tokenAddress holderAddress) (\<lambda>balance.
        if balance \<ge> amount then
          bind (cache_put tokenAddress slot) (\<lambda>_. ret (Some True))
        else
          bind (setStorageAt cl tokenAddress balanceSlotReverse originalValue) (\<lambda>_. ret None))))))
       (\<lambda>_. ret None)"

definition method7 ::
  "'n env \<Rightarrow> address option \<Rightarrow> address \<Rightarrow> address \<Rightarrow> int \<Rightarrow> ('n world, bool option) prog" where
  "method7 cl implementationAddress tokenAddress holderAddress amount =
     (case implementationAddress of
        None \<Rightarrow> ret None
      | Some _ \<Rightarrow>
          try_catch
            (for_each [0, 1, 2, 3, 4, 5, 6, 7, 8, 9, 10, 51, 52, 100, 101, 102]
               (method7_probe cl tokenAddress holderAddress amount))
            (\<lambda>_. ret None))"

definition setERC20Balance :: "'n env \<Rightarrow> address \<Rightarrow> address \<Rightarrow> int \<Rightarrow> ('n world, bool) prog" where
  "setERC20Balance cl tokenAddress holderAddress amount =
     bind (detectProxyImplementation cl tokenAddress) (\<lambda>implementationAddress.
     bind (or_else (method1 cl tokenAddress holderAddress amount)
          (or_else (method2 cl tokenAddress holderAddress amount)
          (or_else (method3 cl tokenAddress holderAddress amount)
          (or_else (method4 cl tokenAddress holderAddress amount)
          (or_else (method5 cl tokenAddress holderAddress amount)
          (or_else (method6 cl tokenAddress holderAddress amount)
                   (method7 cl implementationAddress tokenAddress holderAddress amount)))))))
       (\<lambda>r. case r of Some b \<Rightarrow> ret b | None \<Rightarrow> ret False))"

section \<open>A concrete forked node\<close>

text \<open>
  A small node for running the code on concrete inputs. Contract storage is a table from
  (contract, key) to value. A token is \<open>Standard s\<close> when its \<open>balanceOf\<close> reads the
  mapping at slot \<open>s\<close> with the usual key, \<open>Opaque\<close> when its balances live where no
  probe reaches (\<open>balanceOf\<close> answers \<open>0\<close> for the test account whatever the probes
  write), and \<open>Reverting\<close> when \<open>balanceOf\<close> reverts. \<open>f_faults\<close> lists the errors the
  next transaction submissions will throw; a submission that goes through applies the
  given effect of the swap to the storage. The hash is a stand-in for keccak-256 that keeps
  the keys used here apart, and the test account is the address \<open>0xACC\<close>.
\<close>

datatype token_kind = Standard nat | Opaque | Reverting

record fork =
  f_storage :: "address \<times> nat \<Rightarrow> nat"
  f_native :: "address \<Rightarrow> int"
  f_allowance :: "address \<times> address \<times> address \<Rightarrow> int"
  f_block :: int
  f_faults :: "error list"
  f_sent :: nat

definition toy_hash :: "nat \<Rightarrow> nat \<Rightarrow> nat" where
  "toy_hash a b = 1000000 + a * 1000 + b"

definition execution_reverted :: error where
  "execution_reverted = Error (Some ''execution reverted'') None None"

definition fork_balanceOf :: "(address \<Rightarrow> token_kind) \<Rightarrow> address \<Rightarrow> address \<Rightarrow> (fork, int) prog" where
  "fork_balanceOf kind token holder =
     (case kind token of
        Standard s \<Rightarrow> (\<lambda>n. (Inr (int (f_storage n (token, toy_hash holder s))), n))
      | Opaque \<Rightarrow> ret 0
      | Reverting \<Rightarrow> throw execution_reverted)"

definition fork_sendTransaction ::
  "((address \<times> nat \<Rightarrow> nat) \<Rightarrow> (address \<times> nat \<Rightarrow> nat)) \<Rightarrow> tx \<Rightarrow> (fork, nat option) prog" where
  "fork_sendTransaction swap t =
     (\<lambda>n. case f_faults n of
             e # es \<Rightarrow> (Inl e, n\<lparr>f_faults := es\<rparr>)
           | [] \<Rightarrow> (Inr (Some (Suc (f_sent n))),
                    n\<lparr>f_storage := swap (f_storage n), f_sent := Suc (f_sent n)\<rparr>))"

definition fork_env ::
  "(address \<Rightarrow> token_kind) \<Rightarrow> ((address \<times> nat \<Rightarrow> nat) \<Rightarrow> (address \<times> nat \<Rightarrow> nat)) \<Rightarrow> fork env" where
  "fork_env kind swap =
     \<lparr>c_getStorageAt = (\<lambda>a k n. (Inr (f_storage n (a, k)), n)),
      c_setStorageAt = (\<lambda>a k v n. (Inr (), n\<lparr>f_storage := (f_storage n)((a, k) := v)\<rparr>)),
      c_balanceOf = fork_balanceOf kind,
      c_allowance = (\<lambda>token owner spender n. (Inr (f_allowance n (token, owner, spender)), n)),
      c_hardhat_setBalance = (\<lambda>a v n. (Inr (), n\<lparr>f_native := (f_native n)(a := v)\<rparr>)),
      c_impersonateAccount = (\<lambda>a. ret ()),
      c_stopImpersonatingAccount = (\<lambda>a. ret ()),
      c_deal = (\<lambda>token holder amount. throw execution_reverted),
      c_approve = (\<lambda>token spender amount n.
         (Inr 0, n\<lparr>f_allowance := (f_allowance n)((token, 2764, spender) := amount)\<rparr>)),
      c_waitForTransactionReceipt = (\<lambda>h n.
         (Inr (Some \<lparr>r_status = TxSuccess, r_gasUsed = 150000, r_blockNumber = f_block n\<rparr>), n)),
      c_setBalance = (\<lambda>a v n. (Inr (), n\<lparr>f_native := (f_native n)(a := v)\<rparr>)),
      c_getBalance = (\<lambda>a n. (Inr (f_native n a), n)),
      c_getBytecode = (\<lambda>a. ret (Some ''0x60806040'')),
      c_sendTransaction = fork_sendTransaction swap,
      c_call = (\<lambda>t b. ret ''0x''),
      c_reset = (\<lambda>b n. (Inr (Some ()), n\<lparr>f_storage := (\<lambda>_. 0), f_allowance := (\<lambda>_. 0), f_block := b\<rparr>)),
      c_getBlockNumber = (\<lambda>n. (Inr (f_block n), n)),
      keccak256 = toy_hash,
      TEST_ACCOUNT = 2764\<rparr>"

definition fresh_fork :: fork where
  "fresh_fork = \<lparr>f_storage = (\<lambda>_. 0), f_native = (\<lambda>_. 0), f_allowance = (\<lambda>_. 0),
                  f_block = 1000, f_faults = [], f_sent = 0\<rparr>"

definition fresh_world :: "fork world" where
  "fresh_world = \<lparr>node = fresh_fork, log = [], cache = Map.empty\<rparr>"

section \<open>ForkController and transaction submission (utils/client.ts)\<close>

text \<open>\<open>a || d\<close> on an optional number: \<open>undefined\<close> and \<open>0\<close> give the default.\<close>

definition js_or :: "nat option \<Rightarrow> nat \<Rightarrow> nat" where
  "js_or v d = (case v of None \<Rightarrow> d | Some n \<Rightarrow> if n = 0 then d else n)"

fun show_nat :: "nat \<Rightarrow> string" where
  "show_nat n = (if n < 10 then [char_of (48 + n)]
                 else show_nat (n div 10) @ [char_of (48 + n mod 10)])"

declare show_nat.simps [simp del]

definition hex_digit :: "nat \<Rightarrow> char" where
  "hex_digit d = (if d < 10 then char_of (48 + d) else char_of (87 + d))"

fun hex_digits :: "nat \<Rightarrow> string" where
  "hex_digits n = (if n < 16 then [hex_digit n] else hex_digits (n div 16) @ [hex_digit (n mod 16)])"

declare hex_digits.simps [simp del]

definition DEFAULT_TIMEOUT :: nat where "DEFAULT_TIMEOUT = 120000"

definition fork_reset_shouldRetry :: "error \<Rightarrow> bool" where
  "fork_reset_shouldRetry err =
     (let msg = toLowerCase (or_default (message err) [])
      in if str_includes msg ''invalid block'' then False
         else if str_includes msg ''not found'' then False else True)"

definition resetForkWithRetry :: "'n env \<Rightarrow> int \<Rightarrow> nat option \<Rightarrow> ('n world, unit) prog" where
  "resetForkWithRetry cl blockNumber maxAttempts_opt =
     retryWithBackoff sleep_for
       (race (reset cl blockNumber) ''Fork reset timed out after 5 minutes'')
       \<lparr>maxAttempts = Some (js_or maxAttempts_opt 5), initialDelay = Some 2000,
        maxDelay = Some 60000, backoffMultiplier = None,
        shouldRetry = Some fork_reset_shouldRetry, onRetry = Some (\<lambda>attempt err w. w)\<rparr>"

definition executeTransactionWithRetry ::
  "'n env \<Rightarrow> tx \<Rightarrow> nat option \<Rightarrow> nat option \<Rightarrow> ('n world, receipt) prog" where
  "executeTransactionWithRetry cl transaction maxAttempts_opt timeout_opt =
     (let timeout = js_or timeout_opt DEFAULT_TIMEOUT in
      retryWithBackoff sleep_for
        (bind (race (sendTransaction cl transaction)
                 (''Transaction timed out after '' @ show_nat timeout @ ''ms'')) (\<lambda>hash.
         race (waitForTransactionReceipt cl hash)
           (''Receipt wait timed out after '' @ show_nat timeout @ ''ms'')))
        \<lparr>maxAttempts = Some (js_or maxAttempts_opt 3), initialDelay = Some 2000,
         maxDelay = Some 30000, backoffMultiplier = None,
         shouldRetry = None, onRetry = Some (\<lambda>attempt err w. w)\<rparr>)"

section \<open>SwapExecutor (compare.ts)\<close>

definition setNativeBalance :: "'n env \<Rightarrow> address \<Rightarrow> int \<Rightarrow> ('n world, unit) prog" where
  "setNativeBalance cl addr amount = try_catch (setBalance cl addr amount) (\<lambda>err. throw err)"

definition MAX_UINT256 :: int where
  "MAX_UINT256 = 0xffffffffffffffffffffffffffffffffffffffffffffffffffffffffffffffff"

text \<open>
  \<open>approveERC20\<close> awaits the receipt without a timer of its own; when the receipt does
  not arrive, viem's \<open>waitForTransactionReceipt\<close> gives up by throwing.
\<close>

definition approveERC20 :: "'n env \<Rightarrow> address \<Rightarrow> address \<Rightarrow> int \<Rightarrow> ('n world, unit) prog" where
  "approveERC20 cl tokenAddress spenderAddress amount =
     try_catch
       (bind (approve cl tokenAddress spenderAddress MAX_UINT256) (\<lambda>hash.
        bind (race (waitForTransactionReceipt cl hash)
                ''Timed out while waiting for transaction to be confirmed'') (\<lambda>_.
        ret ())))
       (\<lambda>err. throw err)"

definition getTokenBalance :: "'n env \<Rightarrow> address \<Rightarrow> address \<Rightarrow> bool \<Rightarrow> ('n world, int) prog" where
  "getTokenBalance cl tokenAddress holderAddress isNative =
     (if isNative then getBalance cl holderAddress else balanceOf cl tokenAddress holderAddress)"

definition forkToBlock :: "'n env \<Rightarrow> int \<Rightarrow> ('n world, unit) prog" where
  "forkToBlock cl blockNumber =
     try_catch
       (bind (resetForkWithRetry cl blockNumber (Some 5)) (\<lambda>_.
        bind (sleep 1000) (\<lambda>_.
        bind (getBlockNumber cl) (\<lambda>currentBlock.
        ret ()))))
       (\<lambda>err. throw err)"

text \<open>
  Amounts that the code carries as decimal strings (\<open>amountOut\<close>, \<open>gasUsed\<close>) are the
  integers the strings denote.
\<close>

datatype sim_status = StatusSuccess | StatusReverted | StatusError | StatusSkipped

record SimulationResult =
  sr_status :: sim_status
  sr_amountOut :: int
  sr_error :: "string option"
  sr_gasUsed :: "int option"

record SwapTransaction =
  st_to :: address
  st_data :: string
  st_value :: "int option"

text \<open>\<open>a || b\<close> on optional strings: \<open>undefined\<close> and the empty string are falsy.\<close>

definition str_or :: "string option \<Rightarrow> string \<Rightarrow> string" where
  "str_or v d = (case v of None \<Rightarrow> d | Some s \<Rightarrow> if s = [] then d else s)"

definition is_timeout_message :: "error \<Rightarrow> bool" where
  "is_timeout_message err =
     (case message err of
        None \<Rightarrow> False
      | Some m \<Rightarrow> str_includes m ''timeout'' \<or> str_includes m ''timed out'')"

definition balance_setup_failed :: SimulationResult where
  "balance_setup_failed = \<lparr>sr_status = StatusError, sr_amountOut = 0,
     sr_error = Some ''Failed to set token balance for simulation'', sr_gasUsed = None\<rparr>"

text \<open>
  The first block of \<open>simulateTransaction\<close>: funding and approval. \<open>Some r\<close> is the early
  \<open>return r\<close>.
\<close>

definition fund_account ::
  "'n env \<Rightarrow> address \<Rightarrow> int \<Rightarrow> SwapTransaction \<Rightarrow> ('n world, SimulationResult option) prog" where
  "fund_account cl tokenIn amountIn swapData =
     (if isNativeToken tokenIn then
        (let minBalance = 1000 * 10 ^ 18;
             calculatedBalance = amountIn * 1000000;
             balance = (if calculatedBalance > minBalance then calculatedBalance else minBalance)
         in bind (setNativeBalance cl (TEST_ACCOUNT cl) balance) (\<lambda>_.
            bind (getBalance cl (TEST_ACCOUNT cl)) (\<lambda>actualBalance.
            ret None)))
      else
        (let bufferMultiplier = 10;
             bufferedAmount = amountIn * bufferMultiplier
         in bind (setERC20Balance cl tokenIn (TEST_ACCOUNT cl) bufferedAmount) (\<lambda>balanceSetSuccess.
            bind (balanceOf cl tokenIn (TEST_ACCOUNT cl)) (\<lambda>actualBalance.
            if balanceSetSuccess then
              (if actualBalance < amountIn then ret (Some balance_setup_failed)
               else
                 bind (approveERC20 cl tokenIn (st_to swapData) bufferedAmount) (\<lambda>_.
                 bind (allowance cl tokenIn (TEST_ACCOUNT cl) (st_to swapData)) (\<lambda>allowance.
                 ret None)))
            else ret (Some balance_setup_failed)))))"

definition swap_tx :: "'n env \<Rightarrow> SwapTransaction \<Rightarrow> tx" where
  "swap_tx cl swapData =
     \<lparr>tx_account = TEST_ACCOUNT cl, tx_to = st_to swapData, tx_data = st_data swapData,
      tx_value = or_default (st_value swapData) 0, tx_gas = Some 30000000\<rparr>"

text \<open>
  The \<open>try\<close> around \<open>executeTransactionWithRetry\<close>: \<open>Inr\<close> is the receipt, \<open>Inl r\<close> the
  \<open>return r\<close> of the handler; a timeout is thrown again.
\<close>

definition submit_swap ::
  "'n env \<Rightarrow> SwapTransaction \<Rightarrow> ('n world, SimulationResult + receipt) prog" where
  "submit_swap cl swapData =
     try_catch
       (bind (executeTransactionWithRetry cl (swap_tx cl swapData) (Some 3) (Some 600000))
          (\<lambda>receipt. ret (Inr receipt)))
       (\<lambda>txError.
          if is_timeout_message txError then throw txError
          else ret (Inl \<lparr>sr_status = StatusError, sr_amountOut = 0,
                 sr_error = Some (str_or (reason txError) (str_or (message txError) ''Unknown error'')),
                 sr_gasUsed = None\<rparr>))"

text \<open>
  The rest of \<open>simulateTransaction\<close> after funding: snapshot of the output balance, check of
  the target's code, submission, and evaluation of the receipt. The replay of a reverted
  transaction by \<open>client.call\<close> carries no gas field. Addresses are numbers here, so the
  message about a missing target contract shows the address by its hexadecimal digits, where
  the program prints the string it was given.
\<close>

definition execute_swap ::
  "'n env \<Rightarrow> address \<Rightarrow> SwapTransaction \<Rightarrow> ('n world, SimulationResult) prog" where
  "execute_swap cl tokenOut swapData =
     bind (sleep 1000) (\<lambda>_.
     let isNativeOut = isNativeToken tokenOut in
     bind (getTokenBalance cl tokenOut (TEST_ACCOUNT cl) isNativeOut) (\<lambda>initialBalance.
     bind (sleep 1000) (\<lambda>_.
     bind (getBytecode cl (st_to swapData)) (\<lambda>targetCode.
     if targetCode = None \<or> targetCode = Some [] \<or> targetCode = Some ''0x'' then
       throw (Error (Some (''Target contract 0x'' @ hex_digits (st_to swapData)
                             @ '' does not exist'')) None None)
     else
       bind (submit_swap cl swapData) (\<lambda>submitted.
       case submitted of
         Inl r \<Rightarrow> ret r
       | Inr receipt \<Rightarrow>
           if r_status receipt = TxSuccess then
             bind (sleep 1000) (\<lambda>_.
             bind (getTokenBalance cl tokenOut (TEST_ACCOUNT cl) isNativeOut) (\<lambda>finalBalance.
             let amountOut = finalBalance - initialBalance in
             ret \<lparr>sr_status = StatusSuccess, sr_amountOut = amountOut, sr_error = None,
                  sr_gasUsed = Some (r_gasUsed receipt)\<rparr>))
           else
             bind (try_catch
                     (bind (call cl ((swap_tx cl swapData)\<lparr>tx_gas := None\<rparr>) (r_blockNumber receipt))
                        (\<lambda>_. ret ()))
                     (\<lambda>callError. ret ())) (\<lambda>_.
             ret \<lparr>sr_status = StatusReverted, sr_amountOut = 0,
                  sr_error = Some ''Transaction reverted'',
                  sr_gasUsed = Some (r_gasUsed receipt)\<rparr>))))))"

definition simulateTransaction ::
  "'n env \<Rightarrow> address \<Rightarrow> address \<Rightarrow> int \<Rightarrow> SwapTransaction \<Rightarrow> ('n world, SimulationResult) prog" where
  "simulateTransaction cl tokenIn tokenOut amountIn swapData =
     try_catch
       (bind (fund_account cl tokenIn amountIn swapData) (\<lambda>early.
        case early of
          Some r \<Rightarrow> ret r
        | None \<Rightarrow> execute_swap cl tokenOut swapData))
       (\<lambda>err. ret \<lparr>sr_status = StatusError, sr_amountOut = 0,
                    sr_error = Some (str_or (message err) ''Unknown error''), sr_gasUsed = None\<rparr>)"

section \<open>GasAccountant (compare.ts)\<close>

text \<open>
  A JavaScript \<open>Number\<close> is an IEEE 754 binary64 value. A finite one is the rational it
  denotes; each arithmetic operation yields the exact result rounded to the nearest
  representable value, ties to even, and a result that rounds beyond the largest finite
  value is an infinity (\<open>None\<close>). \<open>binary_exponent q\<close> is \<open>\<lfloor>log\<^sub>2 |q|\<rfloor>\<close> for \<open>q \<noteq> 0\<close>.
\<close>

definition round_half_even :: "rat \<Rightarrow> int" where
  "round_half_even q =
     (let f = \<lfloor>q\<rfloor>; d = q - of_int f
      in if d < 1 / 2 then f else if 1 / 2 < d then f + 1 else if even f then f else f + 1)"

definition binary_exponent :: "rat \<Rightarrow> int" where
  "binary_exponent q =
     (let a = \<bar>q\<bar>
      in if 1 \<le> a then bitlen \<lfloor>a\<rfloor> - 1 else - bitlen (\<lceil>1 / a\<rceil> - 1))"

definition to_binary64 :: "rat \<Rightarrow> rat option" where
  "to_binary64 q =
     (if q = 0 then Some 0
      else let k = max (binary_exponent q - 52) (- 1074);
               r = of_int (round_half_even (q / 2 powi k)) * 2 powi k
           in if 2 powi 1024 \<le> \<bar>r\<bar> then None else Some r)"

definition float_div :: "rat \<Rightarrow> rat \<Rightarrow> rat option" where
  "float_div x y = to_binary64 (x / y)"

definition float_mul :: "rat \<Rightarrow> rat \<Rightarrow> rat option" where
  "float_mul x y = to_binary64 (x * y)"

text \<open>
  \<open>calculateGasCostInTokenOut\<close>. The argument \<open>gasUsed\<close> is \<open>None\<close> for a string that
  \<open>BigInt\<close> rejects, and the price is \<open>None\<close> when the table has no entry for the token.
  A zero price is falsy. Whatever throws, and any infinity or NaN reaching \<open>BigInt\<close>,
  ends in the handler that returns \<open>"0"\<close>. \<open>10 ** n\<close> is taken as correctly rounded, which
  is exact up to \<open>n = 22\<close>.
\<close>

definition assumedGasPrice :: int where
  "assumedGasPrice = 1000000000"

definition gas_cost_float :: "int \<Rightarrow> rat \<Rightarrow> nat \<Rightarrow> rat option" where
  "gas_cost_float gasUsed monPriceInToken tokenOutDecimals =
     (let gasCostInWei = gasUsed * assumedGasPrice in
      Option.bind (to_binary64 (of_int gasCostInWei)) (\<lambda>wei.
      Option.bind (to_binary64 (10 ^ 18)) (\<lambda>e18.
      Option.bind (float_div wei e18) (\<lambda>gasCostInMON.
      Option.bind (float_mul gasCostInMON monPriceInToken) (\<lambda>gasCostInTokenOut.
      Option.bind (to_binary64 (10 ^ tokenOutDecimals)) (\<lambda>scale.
      float_mul gasCostInTokenOut scale))))))"

definition calculateGasCostInTokenOut :: "int option \<Rightarrow> rat option \<Rightarrow> nat \<Rightarrow> int" where
  "calculateGasCostInTokenOut gasUsed price tokenOutDecimals =
     (case gasUsed of
        None \<Rightarrow> 0
      | Some g \<Rightarrow>
          (case price of
             None \<Rightarrow> 0
           | Some monPriceInToken \<Rightarrow>
               if monPriceInToken = 0 then 0
               else (case gas_cost_float g monPriceInToken tokenOutDecimals of
                       None \<Rightarrow> 0
                     | Some c \<Rightarrow> \<lfloor>c\<rfloor>)))"

text \<open>
  \<open>calculateNetAmount\<close>: an argument is \<open>None\<close> for a string that \<open>BigInt\<close> rejects, in
  which case the handler returns \<open>amountOut\<close> as it came.
\<close>

definition calculateNetAmount :: "int option \<Rightarrow> int option \<Rightarrow> int option" where
  "calculateNetAmount amountOut gasCostInTokenOut =
     (case amountOut of
        None \<Rightarrow> amountOut
      | Some amountOutBigInt \<Rightarrow>
          (case gasCostInTokenOut of
             None \<Rightarrow> amountOut
           | Some gasCostBigInt \<Rightarrow>
               (let netAmount = amountOutBigInt - gasCostBigInt
                in if netAmount < 0 then Some 0 else Some netAmount)))"

text \<open>The value the specification gives for the gas cost, in exact arithmetic.\<close>

definition gas_cost_exact :: "int \<Rightarrow> rat \<Rightarrow> nat \<Rightarrow> int" where
  "gas_cost_exact gasUsed price tokenOutDecimals =
     \<lfloor>of_int gasUsed * of_int assumedGasPrice / 10 ^ 18 * price * 10 ^ tokenOutDecimals\<rfloor>"

section \<open>One simulation of \<open>runComparison\<close>\<close>

text \<open>
  The body of the loop over the quotes: fork to the quote's block, simulate under the outer
  retry, then account for gas. The price table and the token database are parameters.
\<close>

record quote =
  q_status :: nat
  q_blockNumber :: "int option"
  q_txData :: "SwapTransaction option"
  q_amountIn :: int

record sample_result =
  simulation :: SimulationResult
  gasCostInTokenOut :: int
  netAmount :: int

definition simulate_with_reset ::
  "'n env \<Rightarrow> address \<Rightarrow> address \<Rightarrow> quote \<Rightarrow> SwapTransaction \<Rightarrow> ('n world, SimulationResult) prog" where
  "simulate_with_reset cl tokenIn tokenOut quoteResult swapData =
     try_catch
       (simulateTransaction cl tokenIn tokenOut (q_amountIn quoteResult) swapData)
       (\<lambda>err.
          if is_timeout_message err then
            bind (case q_blockNumber quoteResult of
                    None \<Rightarrow> ret ()
                  | Some b \<Rightarrow> forkToBlock cl b) (\<lambda>_.
            throw err)
          else throw err)"

definition simulate_quote ::
  "'n env \<Rightarrow> (address \<Rightarrow> rat option) \<Rightarrow> (address \<Rightarrow> nat) \<Rightarrow> address \<Rightarrow> address \<Rightarrow> quote
     \<Rightarrow> ('n world, sample_result) prog" where
  "simulate_quote cl prices decimals tokenIn tokenOut quoteResult =
     bind (case q_blockNumber quoteResult of
             None \<Rightarrow> ret ()
           | Some b \<Rightarrow> forkToBlock cl b) (\<lambda>_.
     bind (sleep 1000) (\<lambda>_.
     bind (case q_txData quoteResult of
             None \<Rightarrow> ret \<lparr>sr_status = StatusError, sr_amountOut = 0,
                          sr_error = Some ''No transaction data'', sr_gasUsed = None\<rparr>
           | Some swapData \<Rightarrow>
               if q_status quoteResult = 200 then
                 try_catch
                   (retryWithBackoff sleep_for
                      (simulate_with_reset cl tokenIn tokenOut quoteResult swapData)
                      \<lparr>maxAttempts = Some 3, initialDelay = Some 5000, maxDelay = Some 30000,
                       backoffMultiplier = None, shouldRetry = None,
                       onRetry = Some (\<lambda>attempt err w. w)\<rparr>)
                   (\<lambda>simError. ret \<lparr>sr_status = StatusError, sr_amountOut = 0,
                                   sr_error = message simError, sr_gasUsed = None\<rparr>)
               else ret \<lparr>sr_status = StatusSkipped, sr_amountOut = 0,
                         sr_error = Some ''Simulation skipped'', sr_gasUsed = None\<rparr>)
       (\<lambda>simulationResult.
          case sr_gasUsed simulationResult of
            None \<Rightarrow> ret \<lparr>simulation = simulationResult, gasCostInTokenOut = 0,
                         netAmount = sr_amountOut simulationResult\<rparr>
          | Some gasUsed \<Rightarrow>
              (let tokenOutDecimals = decimals tokenOut;
                   gasCost = calculateGasCostInTokenOut (Some gasUsed) (prices tokenOut) tokenOutDecimals;
                   net = calculateNetAmount (Some (sr_amountOut simulationResult)) (Some gasCost)
               in ret \<lparr>simulation = simulationResult, gasCostInTokenOut = gasCost,
                       netAmount = or_default net (sr_amountOut simulationResult)\<rparr>))))"

section \<open>Concrete scenarios\<close>

definition TOKEN :: address where "TOKEN = 7"
definition OUT_TOKEN :: address where "OUT_TOKEN = 8"
definition ROUTER :: address where "ROUTER = 9"
definition ACCOUNT :: address where "ACCOUNT = 2764"

text \<open>A token whose balances no probe reaches, one that keeps them at slot 1, one at slot 0,
  and one whose \<open>balanceOf\<close> reverts.\<close>

definition opaque_env :: "fork env" where
  "opaque_env = fork_env (\<lambda>t. Opaque) id"

definition slot1_env :: "fork env" where
  "slot1_env = fork_env (\<lambda>t. Standard 1) id"

definition reverting_env :: "fork env" where
  "reverting_env = fork_env (\<lambda>t. Reverting) id"

text \<open>A swap that pays the test account 99,500,000 units of the output token, whose
  balances are at slot 0.\<close>

definition pay_out :: "(address \<times> nat \<Rightarrow> nat) \<Rightarrow> (address \<times> nat \<Rightarrow> nat)" where
  "pay_out st = st((OUT_TOKEN, toy_hash ACCOUNT 0) := st (OUT_TOKEN, toy_hash ACCOUNT 0) + 99500000)"

definition swap_env :: "fork env" where
  "swap_env = fork_env (\<lambda>t. Standard 0) pay_out"

definition swapData0 :: SwapTransaction where
  "swapData0 = \<lparr>st_to = ROUTER, st_data = ''0x38ed1739'', st_value = None\<rparr>"

definition quote0 :: quote where
  "quote0 = \<lparr>q_status = 200, q_blockNumber = Some 1000, q_txData = Some swapData0,
              q_amountIn = 1000000\<rparr>"

text \<open>A node whose first transaction submission fails with a timeout.\<close>

definition node_timeout :: error where
  "node_timeout = Error (Some ''request timeout'') None None"

definition stalling_world :: "fork world" where
  "stalling_world = fresh_world\<lparr>node := fresh_fork\<lparr>f_faults := [node_timeout]\<rparr>\<rparr>"

definition is_write :: "event \<Rightarrow> bool" where
  "is_write ev = (case ev of SetStorageAt a k v \<Rightarrow> True | _ \<Rightarrow> False)"

definition is_reset_or_send :: "event \<Rightarrow> bool" where
  "is_reset_or_send ev = (case ev of Reset b \<Rightarrow> True | SendTransaction t \<Rightarrow> True | _ \<Rightarrow> False)"

definition is_approve_or_send :: "event \<Rightarrow> bool" where
  "is_approve_or_send ev = (case ev of Approve t s a \<Rightarrow> True | SendTransaction t \<Rightarrow> True | _ \<Rightarrow> False)"

text \<open>Invariants of the run on the opaque token.\<close>

definition cache_empty :: "fork world \<Rightarrow> bool" where
  "cache_empty w = (cache w TOKEN = None)"

definition slot_overwritten :: "fork world \<Rightarrow> bool" where
  "slot_overwritten w =
     (cache w TOKEN = None \<and> f_storage (node w) (TOKEN, toy_hash ACCOUNT ERC20_NAMESPACE_ID) = 5)"

text \<open>The world after a first, successful injection of 10 units, its record cleared.\<close>

definition after_first_injection :: "fork world" where
  "after_first_injection = (snd (setERC20Balance slot1_env TOKEN ACCOUNT 10 fresh_world))\<lparr>log := []\<rparr>"

definition no_prices :: "address \<Rightarrow> rat option" where
  "no_prices t = None"

definition eighteen_decimals :: "address \<Rightarrow> nat" where
  "eighteen_decimals t = 18"




section \<open>Invariants of computations\<close>

text \<open>
  \<open>preserves I m\<close>: running \<open>m\<close> from a state in \<open>I\<close> ends in \<open>I\<close>, whether it returns or
  throws. \<open>no_throw m\<close>: \<open>m\<close> always returns. \<open>logged_only G L w\<close>: the record of \<open>w\<close>
  extends \<open>L\<close> by events that all satisfy \<open>G\<close>.
\<close>

definition preserves :: "('s \<Rightarrow> bool) \<Rightarrow> ('s, 'a) prog \<Rightarrow> bool" where
  "preserves I m = (\<forall>s. I s \<longrightarrow> I (snd (m s)))"

definition no_throw :: "('s, 'a) prog \<Rightarrow> bool" where
  "no_throw m = (\<forall>s. \<exists>x. fst (m s) = Inr x)"

definition logged_only :: "(event \<Rightarrow> bool) \<Rightarrow> event list \<Rightarrow> 'n world \<Rightarrow> bool" where
  "logged_only G L w = (\<exists>evs. log w = evs @ L \<and> list_all G evs)"

text \<open>The requests the balance injection makes.\<close>

definition injector_event :: "event \<Rightarrow> bool" where
  "injector_event ev =
     (case ev of
        GetStorageAt a k \<Rightarrow> True
      | SetStorageAt a k v \<Rightarrow> True
      | BalanceOf t h \<Rightarrow> True
      | HardhatSetBalance a v \<Rightarrow> True
      | ImpersonateAccount a \<Rightarrow> True
      | StopImpersonatingAccount a \<Rightarrow> True
      | Deal t h a \<Rightarrow> True
      | Sleep ms \<Rightarrow> True
      | _ \<Rightarrow> False)"

text \<open>\<open>returns_none m\<close>: \<open>m\<close> never returns from the enclosing function.\<close>

definition returns_none :: "('s, 'r option) prog \<Rightarrow> bool" where
  "returns_none m = (\<forall>s v. fst (m s) \<noteq> Inr (Some v))"


definition is_approve :: "event \<Rightarrow> bool" where
  "is_approve ev = (case ev of Approve t s a \<Rightarrow> True | _ \<Rightarrow> False)"

definition not_approve :: "event \<Rightarrow> bool" where
  "not_approve ev = (case ev of Approve t s a \<Rightarrow> False | _ \<Rightarrow> True)"

section \<open>Rules for computations\<close>

lemma bind_app: "bind m f s = (case m s of (Inl e, s') \<Rightarrow> (Inl e, s') | (Inr x, s') \<Rightarrow> f x s')"
  by (simp add: bind_def)

lemma try_app: "try_catch m h s = (case m s of (Inl e, s') \<Rightarrow> h e s' | (Inr x, s') \<Rightarrow> (Inr x, s'))"
  by (simp add: try_catch_def)

lemma ret_app: "ret x s = (Inr x, s)"
  by (simp add: ret_def)

lemma throw_app: "throw e s = (Inl e, s)"
  by (simp add: throw_def)

lemma effect_app: "effect f s = (Inr (), f s)"
  by (simp add: effect_def)

lemma or_else_app:
  "or_else m1 m2 s = (case m1 s of (Inl e, s') \<Rightarrow> (Inl e, s')
                      | (Inr None, s') \<Rightarrow> m2 s' | (Inr (Some v), s') \<Rightarrow> (Inr (Some v), s'))"
  by (simp add: or_else_def bind_def ret_def split: prod.splits sum.splits option.splits)

lemma race_app:
  "race p msg s = (case p s of (Inl e, s') \<Rightarrow> (Inl e, s')
                   | (Inr None, s') \<Rightarrow> (Inl (Error (Some msg) None None), s')
                   | (Inr (Some v), s') \<Rightarrow> (Inr v, s'))"
  by (simp add: race_def bind_def ret_def throw_def split: prod.splits sum.splits option.splits)

lemma sleep_app: "sleep ms w = (Inr (), w\<lparr>log := Sleep ms # log w\<rparr>)"
  by (simp add: sleep_def effect_def sleep_for_def)

lemma cache_put_app: "cache_put t s w = (Inr (), w\<lparr>cache := (cache w)(t \<mapsto> s)\<rparr>)"
  by (simp add: cache_put_def effect_def)

lemma cache_get_app: "cache_get t w = (Inr (cache w t), w)"
  by (simp add: cache_get_def)

lemma toHex32_app:
  "toHex32 v s = (if v < 0 then (Inl out_of_range, s)
                  else if v < 2 ^ 256 then (Inr (nat v), s) else (Inl out_of_range, s))"
  by (simp add: toHex32_def throw_def ret_def)

lemma toHex_app: "toHex v s = (if v < 0 then (Inl out_of_range, s) else (Inr v, s))"
  by (simp add: toHex_def throw_def ret_def)

lemmas prog_apps = bind_app try_app ret_app throw_app effect_app or_else_app race_app sleep_app
  cache_put_app cache_get_app toHex32_app toHex_app

lemmas client_defs = getStorageAt_def setStorageAt_def balanceOf_def allowance_def
  hardhat_setBalance_def impersonateAccount_def stopImpersonatingAccount_def deal_def approve_def
  waitForTransactionReceipt_def setBalance_def getBalance_def getBytecode_def sendTransaction_def
  call_def reset_def getBlockNumber_def

subsection \<open>Invariants\<close>

named_theorems preserves_intros

lemma preserves_ret [preserves_intros]: "preserves I (ret x)"
  by (simp add: preserves_def ret_def)

lemma preserves_throw [preserves_intros]: "preserves I (throw e)"
  by (simp add: preserves_def throw_def)

lemma preserves_bind [preserves_intros]:
  assumes "preserves I m" "\<And>x. preserves I (f x)"
  shows "preserves I (bind m f)"
  using assms unfolding preserves_def bind_def
  by (auto split: prod.splits sum.splits)

lemma preserves_try [preserves_intros]:
  assumes "preserves I m" "\<And>e. preserves I (h e)"
  shows "preserves I (try_catch m h)"
  using assms unfolding preserves_def try_catch_def
  by (auto split: prod.splits sum.splits)

lemma preserves_or_else [preserves_intros]:
  assumes "preserves I m1" "preserves I m2"
  shows "preserves I (or_else m1 m2)"
  unfolding or_else_def using assms
  by (intro preserves_bind) (auto split: option.splits intro: preserves_ret)

lemma preserves_race [preserves_intros]:
  assumes "preserves I p"
  shows "preserves I (race p msg)"
  unfolding race_def using assms
  by (intro preserves_bind) (auto split: option.splits intro: preserves_ret preserves_throw)

lemma preserves_if [preserves_intros]:
  assumes "preserves I a" "preserves I b"
  shows "preserves I (if c then a else b)"
  using assms by simp

lemma preserves_case_option [preserves_intros]:
  assumes "preserves I a" "\<And>x. preserves I (b x)"
  shows "preserves I (case v of None \<Rightarrow> a | Some x \<Rightarrow> b x)"
  using assms by (cases v) simp_all

lemma preserves_case_sum [preserves_intros]:
  assumes "\<And>x. preserves I (a x)" "\<And>y. preserves I (b y)"
  shows "preserves I (case v of Inl x \<Rightarrow> a x | Inr y \<Rightarrow> b y)"
  using assms by (cases v) simp_all

lemma preserves_for_each [preserves_intros]:
  assumes "\<And>x. preserves I (body x)"
  shows "preserves I (for_each xs body)"
  unfolding preserves_def
proof (intro allI impI)
  fix s assume "I s"
  then show "I (snd (for_each xs body s))"
  proof (induction xs arbitrary: s)
    case Nil
    then show ?case by simp
  next
    case (Cons x xs)
    have "I (snd (body x s))" using assms Cons.prems by (simp add: preserves_def)
    then show ?case
      using Cons.IH [of "snd (body x s)"]
      by (cases "body x s") (auto split: sum.splits option.splits)
  qed
qed

lemma preserves_effect:
  assumes "\<And>s. I s \<Longrightarrow> I (f s)"
  shows "preserves I (effect f)"
  using assms by (simp add: preserves_def effect_def)



subsection \<open>The record of requests only grows\<close>

lemma logged_only_request:
  assumes "G ev"
  shows "preserves (logged_only G L) (request ev op)"
  using assms unfolding preserves_def logged_only_def request_def
  by (auto split: prod.splits)

lemma logged_only_sleep_for: "G (Sleep ms) \<Longrightarrow> logged_only G L w \<Longrightarrow> logged_only G L (sleep_for ms w)"
  by (auto simp: logged_only_def sleep_for_def)

lemma logged_only_sleep:
  assumes "G (Sleep ms)"
  shows "preserves (logged_only G L) (sleep ms)"
  unfolding sleep_def using assms by (intro preserves_effect) (rule logged_only_sleep_for)

lemma logged_only_cache_put: "preserves (logged_only G L) (cache_put t s)"
  unfolding cache_put_def by (intro preserves_effect) (simp add: logged_only_def)

lemma logged_only_cache_get: "preserves (logged_only G L) (cache_get t)"
  by (simp add: preserves_def cache_get_def)

lemma logged_only_toHex32: "preserves I (toHex32 v)"
  by (simp add: toHex32_def preserves_ret preserves_throw)

lemma logged_only_toHex: "preserves I (toHex v)"
  by (simp add: toHex_def preserves_ret preserves_throw)

lemmas logged_only_intros = preserves_intros logged_only_request logged_only_sleep
  logged_only_cache_put logged_only_cache_get logged_only_toHex32 logged_only_toHex

lemma logged_only_weaken:
  assumes "logged_only G L w" "\<And>e. G e \<Longrightarrow> G' e"
  shows "logged_only G' L w"
  using assms by (auto simp: logged_only_def list_all_iff)

lemma logged_only_refl: "logged_only G (log w) w"
  by (simp add: logged_only_def)

subsection \<open>Computations that always return\<close>

named_theorems no_throw_intros

lemma no_throw_ret [no_throw_intros]: "no_throw (ret x)"
  by (simp add: no_throw_def ret_def)

lemma no_throw_bind [no_throw_intros]:
  assumes "no_throw m" "\<And>x. no_throw (f x)"
  shows "no_throw (bind m f)"
  unfolding no_throw_def
proof
  fix s
  obtain x where "fst (m s) = Inr x" using assms(1) by (auto simp: no_throw_def)
  then have "bind m f s = f x (snd (m s))" by (cases "m s") (simp add: bind_def)
  then show "\<exists>y. fst (bind m f s) = Inr y" using assms(2) by (simp add: no_throw_def)
qed

lemma no_throw_try [no_throw_intros]:
  assumes "\<And>e. no_throw (h e)"
  shows "no_throw (try_catch m h)"
  unfolding no_throw_def
proof
  fix s
  show "\<exists>y. fst (try_catch m h s) = Inr y"
    using assms by (cases "m s") (auto simp: try_catch_def no_throw_def split: sum.splits)
qed

lemma no_throw_or_else [no_throw_intros]:
  assumes "no_throw m1" "no_throw m2"
  shows "no_throw (or_else m1 m2)"
  unfolding or_else_def using assms
  by (intro no_throw_bind) (auto split: option.splits intro: no_throw_ret)

lemma no_throw_case_option [no_throw_intros]:
  assumes "no_throw a" "\<And>x. no_throw (b x)"
  shows "no_throw (case v of None \<Rightarrow> a | Some x \<Rightarrow> b x)"
  using assms by (cases v) simp_all

lemma no_throw_for_each [no_throw_intros]:
  assumes "\<And>x. no_throw (body x)"
  shows "no_throw (for_each xs body)"
  unfolding no_throw_def
proof
  fix s
  show "\<exists>y. fst (for_each xs body s) = Inr y"
  proof (induction xs arbitrary: s)
    case Nil
    then show ?case by simp
  next
    case (Cons x xs)
    obtain r where r: "fst (body x s) = Inr r" using assms by (auto simp: no_throw_def)
    show ?case
      using r Cons.IH [of "snd (body x s)"]
      by (cases "body x s") (auto split: option.splits)
  qed
qed

lemma no_throwD: "no_throw m \<Longrightarrow> \<exists>x. m s = (Inr x, snd (m s))"
  by (metis no_throw_def prod.collapse)

subsection \<open>Computations that never return from the function\<close>

lemma returns_none_ret: "returns_none (ret None)"
  by (simp add: returns_none_def ret_def)

lemma returns_none_throw: "returns_none (throw e)"
  by (simp add: returns_none_def throw_def)

lemma returns_none_bind:
  assumes "\<And>x. returns_none (f x)"
  shows "returns_none (bind m f)"
  using assms unfolding returns_none_def bind_def
  by (auto split: prod.splits sum.splits)

lemma returns_none_try:
  assumes "returns_none m" "\<And>e. returns_none (h e)"
  shows "returns_none (try_catch m h)"
  unfolding returns_none_def
proof (intro allI)
  fix s v
  show "fst (try_catch m h s) \<noteq> Inr (Some v)"
  proof (cases "m s")
    case (Pair r s1)
    show ?thesis
    proof (cases r)
      case (Inl e)
      then show ?thesis using Pair assms(2) [of e] by (simp add: try_catch_def returns_none_def)
    next
      case (Inr x)
      then have "x \<noteq> Some v" using Pair assms(1) by (auto simp: returns_none_def dest: spec [of _ s])
      then show ?thesis using Pair Inr by (simp add: try_catch_def)
    qed
  qed
qed

lemma returns_none_or_else:
  assumes "returns_none m1" "returns_none m2"
  shows "returns_none (or_else m1 m2)"
  unfolding returns_none_def
proof (intro allI)
  fix s v
  have a: "fst (m1 s) \<noteq> Inr (Some v')" for v' using assms(1) by (simp add: returns_none_def)
  have b: "fst (m2 (snd (m1 s))) \<noteq> Inr (Some v)" using assms(2) by (simp add: returns_none_def)
  show "fst (or_else m1 m2 s) \<noteq> Inr (Some v)"
    using a b by (cases "m1 s") (auto simp: or_else_app split: sum.splits option.splits)
qed

lemma returns_none_for_each:
  assumes "\<And>x. returns_none (body x)"
  shows "returns_none (for_each xs body)"
  unfolding returns_none_def
proof (intro allI)
  fix s v
  show "fst (for_each xs body s) \<noteq> Inr (Some v)"
  proof (induction xs arbitrary: s)
    case Nil
    then show ?case by simp
  next
    case (Cons x xs)
    have "fst (body x s) \<noteq> Inr (Some v')" for v'
      using assms by (simp add: returns_none_def)
    then show ?case
      using Cons.IH [of "snd (body x s)"]
      by (cases "body x s") (auto split: sum.splits option.splits)
  qed
qed

lemma returns_none_balanceOf:
  assumes low: "\<And>n b n'. c_balanceOf cl token holder n = (Inr b, n') \<Longrightarrow> b < amount"
    and "\<And>b. b < amount \<Longrightarrow> returns_none (f b)"
  shows "returns_none (bind (balanceOf cl token holder) f)"
  using assms unfolding returns_none_def bind_def balanceOf_def request_def
  by (auto split: prod.splits sum.splits)

lemma none_if_returns_none:
  assumes "no_throw m" "returns_none m"
  shows "fst (m s) = Inr None"
proof -
  obtain x where "fst (m s) = Inr x" using assms(1) by (auto simp: no_throw_def)
  then show ?thesis using assms(2) by (cases x) (auto simp: returns_none_def)
qed


lemma returns_none_if_low:
  assumes "(b::int) < amount" "returns_none m"
  shows "returns_none (if amount \<le> b then m' else m)"
  using assms by simp

lemma returns_none_case_option:
  assumes "returns_none a" "\<And>x. returns_none (b x)"
  shows "returns_none (case v of None \<Rightarrow> a | Some x \<Rightarrow> b x)"
  using assms by (cases v) simp_all

lemma or_else_skip:
  assumes "fst (m1 s) = Inr None"
  shows "or_else m1 m2 s = m2 (snd (m1 s))"
  using assms by (cases "m1 s") (simp add: or_else_app)

lemma for_each_none_inv:
  assumes "\<And>x s. x \<in> set xs \<Longrightarrow> I s \<Longrightarrow> fst (body x s) = Inr None \<and> I (snd (body x s))"
    and "I s"
  shows "fst (for_each xs body s) = Inr None \<and> I (snd (for_each xs body s))"
  using assms
proof (induction xs arbitrary: s)
  case Nil
  then show ?case by simp
next
  case (Cons x xs)
  have h: "fst (body x s) = Inr None \<and> I (snd (body x s))"
    using Cons.prems by simp
  have "fst (for_each xs body (snd (body x s))) = Inr None
        \<and> I (snd (for_each xs body (snd (body x s))))"
    using Cons.prems h by (intro Cons.IH) auto
  then show ?case using h by (cases "body x s") auto
qed

section \<open>The concrete node, request by request\<close>

lemma fork_getStorageAt:
  "getStorageAt (fork_env kind swap) a k w =
     (Inr (f_storage (node w) (a, k)), w\<lparr>log := GetStorageAt a k # log w\<rparr>)"
  by (simp add: getStorageAt_def request_def fork_env_def)

lemma fork_setStorageAt:
  "setStorageAt (fork_env kind swap) a k v w =
     (Inr (), w\<lparr>node := (node w)\<lparr>f_storage := (f_storage (node w))((a, k) := v)\<rparr>,
               log := SetStorageAt a k v # log w\<rparr>)"
  by (simp add: setStorageAt_def request_def fork_env_def)

lemma fork_balanceOf_app:
  "balanceOf (fork_env kind swap) t h w =
     (case kind t of
        Standard s \<Rightarrow> Inr (int (f_storage (node w) (t, toy_hash h s)))
      | Opaque \<Rightarrow> Inr 0
      | Reverting \<Rightarrow> Inl execution_reverted,
      w\<lparr>log := BalanceOf t h # log w\<rparr>)"
  by (simp add: balanceOf_def request_def fork_env_def fork_balanceOf_def ret_def throw_def
      split: token_kind.splits)

lemma fork_allowance:
  "allowance (fork_env kind swap) t owner spender w =
     (Inr (f_allowance (node w) (t, owner, spender)), w\<lparr>log := Allowance t owner spender # log w\<rparr>)"
  by (simp add: allowance_def request_def fork_env_def)

lemma fork_hardhat_setBalance:
  "hardhat_setBalance (fork_env kind swap) a v w =
     (Inr (), w\<lparr>node := (node w)\<lparr>f_native := (f_native (node w))(a := v)\<rparr>,
               log := HardhatSetBalance a v # log w\<rparr>)"
  by (simp add: hardhat_setBalance_def request_def fork_env_def)

lemma fork_impersonateAccount:
  "impersonateAccount (fork_env kind swap) a w = (Inr (), w\<lparr>log := ImpersonateAccount a # log w\<rparr>)"
  by (simp add: impersonateAccount_def request_def fork_env_def ret_def)

lemma fork_stopImpersonatingAccount:
  "stopImpersonatingAccount (fork_env kind swap) a w =
     (Inr (), w\<lparr>log := StopImpersonatingAccount a # log w\<rparr>)"
  by (simp add: stopImpersonatingAccount_def request_def fork_env_def ret_def)

lemma fork_deal:
  "deal (fork_env kind swap) t h a w = (Inl execution_reverted, w\<lparr>log := Deal t h a # log w\<rparr>)"
  by (simp add: deal_def request_def fork_env_def throw_def)

lemma fork_approve:
  "approve (fork_env kind swap) t spender a w =
     (Inr 0, w\<lparr>node := (node w)\<lparr>f_allowance := (f_allowance (node w))((t, 2764, spender) := a)\<rparr>,
              log := Approve t spender a # log w\<rparr>)"
  by (simp add: approve_def request_def fork_env_def)

lemma fork_waitForTransactionReceipt:
  "waitForTransactionReceipt (fork_env kind swap) h w =
     (Inr (Some \<lparr>r_status = TxSuccess, r_gasUsed = 150000, r_blockNumber = f_block (node w)\<rparr>),
      w\<lparr>log := WaitForTransactionReceipt h # log w\<rparr>)"
  by (simp add: waitForTransactionReceipt_def request_def fork_env_def)

lemma fork_setBalance:
  "setBalance (fork_env kind swap) a v w =
     (Inr (), w\<lparr>node := (node w)\<lparr>f_native := (f_native (node w))(a := v)\<rparr>,
               log := SetBalance a v # log w\<rparr>)"
  by (simp add: setBalance_def request_def fork_env_def)

lemma fork_getBalance:
  "getBalance (fork_env kind swap) a w = (Inr (f_native (node w) a), w\<lparr>log := GetBalance a # log w\<rparr>)"
  by (simp add: getBalance_def request_def fork_env_def)

lemma fork_getBytecode:
  "getBytecode (fork_env kind swap) a w = (Inr (Some ''0x60806040''), w\<lparr>log := GetBytecode a # log w\<rparr>)"
  by (simp add: getBytecode_def request_def fork_env_def ret_def)

lemma fork_sendTransaction:
  "sendTransaction (fork_env kind swap) t w =
     (case f_faults (node w) of
        e # es \<Rightarrow> (Inl e, w\<lparr>node := (node w)\<lparr>f_faults := es\<rparr>, log := SendTransaction t # log w\<rparr>)
      | [] \<Rightarrow> (Inr (Some (Suc (f_sent (node w)))),
               w\<lparr>node := (node w)\<lparr>f_storage := swap (f_storage (node w)), f_sent := Suc (f_sent (node w))\<rparr>,
                 log := SendTransaction t # log w\<rparr>))"
  by (simp add: sendTransaction_def request_def fork_env_def fork_sendTransaction_def
      split: list.splits)

lemma fork_call:
  "call (fork_env kind swap) t b w = (Inr ''0x'', w\<lparr>log := Call t b # log w\<rparr>)"
  by (simp add: call_def request_def fork_env_def ret_def)

lemma fork_reset:
  "reset (fork_env kind swap) b w =
     (Inr (Some ()),
      w\<lparr>node := (node w)\<lparr>f_storage := (\<lambda>_. 0), f_allowance := (\<lambda>_. 0), f_block := b\<rparr>,
        log := Reset b # log w\<rparr>)"
  by (simp add: reset_def request_def fork_env_def)

lemma fork_getBlockNumber:
  "getBlockNumber (fork_env kind swap) w = (Inr (f_block (node w)), w\<lparr>log := GetBlockNumber # log w\<rparr>)"
  by (simp add: getBlockNumber_def request_def fork_env_def)

lemma fork_keccak256: "keccak256 (fork_env kind swap) = toy_hash"
  by (simp add: fork_env_def)

lemma fork_TEST_ACCOUNT: "TEST_ACCOUNT (fork_env kind swap) = 2764"
  by (simp add: fork_env_def)

lemmas fork_apps = fork_getStorageAt fork_setStorageAt fork_balanceOf_app fork_allowance
  fork_hardhat_setBalance fork_impersonateAccount fork_stopImpersonatingAccount fork_deal
  fork_approve fork_waitForTransactionReceipt fork_setBalance fork_getBalance fork_getBytecode
  fork_sendTransaction fork_call fork_reset fork_getBlockNumber fork_keccak256 fork_TEST_ACCOUNT

lemmas scenario_defs = TOKEN_def OUT_TOKEN_def ROUTER_def ACCOUNT_def opaque_env_def slot1_env_def
  reverting_env_def swap_env_def swapData0_def quote0_def fresh_world_def fresh_fork_def
  toy_hash_def




section \<open>Properties of the GasAccountant\<close>

lemma bitlen_eqI: "0 < n \<Longrightarrow> 2 ^ (nat n - 1) \<le> x \<Longrightarrow> x < 2 ^ nat n \<Longrightarrow> bitlen x = n"
  by (auto simp: bitlen_le_iff_power bitlen_ge_iff_power intro!: antisym)

lemma binary_exponent_eqI:
  assumes lo: "2 powi e \<le> \<bar>q\<bar>" and hi: "\<bar>q\<bar> < 2 powi (e + 1)"
  shows "binary_exponent q = e"
proof (cases "1 \<le> \<bar>q\<bar>")
  case True
  have e0: "0 \<le> e"
  proof (rule ccontr)
    assume "\<not> 0 \<le> e"
    then have "e + 1 \<le> 0" by simp
    then have "(2::rat) powi (e + 1) \<le> 1"
      by (simp add: power_int_def field_simps one_le_power)
    with hi True show False by simp
  qed
  define n where "n = nat e"
  have pe: "(2::rat) powi e = 2 ^ n" and pe1: "(2::rat) powi (e + 1) = 2 ^ Suc n"
    using e0 by (simp_all add: n_def power_int_def nat_add_distrib)
  have "(2::int) ^ n \<le> \<lfloor>\<bar>q\<bar>\<rfloor>"
    using lo pe by (simp add: le_floor_iff)
  moreover have "\<lfloor>\<bar>q\<bar>\<rfloor> < (2::int) ^ Suc n"
    using hi pe1 by (simp add: floor_less_iff)
  ultimately have "bitlen \<lfloor>\<bar>q\<bar>\<rfloor> = e + 1"
    using e0 by (intro bitlen_eqI) (simp_all add: n_def nat_add_distrib)
  with True show ?thesis by (simp add: binary_exponent_def Let_def)
next
  case False
  have e0: "e < 0"
  proof (rule ccontr)
    assume "\<not> e < 0"
    then have "(1::rat) \<le> 2 powi e"
      by (simp add: power_int_def)
    with lo False show False by simp
  qed
  define n where "n = nat (- e)"
  have n0: "0 < n" using e0 by (simp add: n_def)
  have "(0::rat) < 2 powi e" by simp
  with lo have pos: "0 < \<bar>q\<bar>" by linarith
  have pe: "(2::rat) powi e = 1 / 2 ^ n"
    using e0 by (simp add: n_def power_int_def field_simps)
  have pe1: "(2::rat) powi (e + 1) = 1 / 2 ^ (n - 1)"
  proof (cases "e + 1 = 0")
    case True
    then show ?thesis using e0 by (simp add: n_def)
  next
    case False
    then have "e + 1 < 0" using e0 by simp
    moreover have "nat (- (e + 1)) = n - 1" by (simp add: n_def)
    ultimately show ?thesis by (simp add: power_int_def field_simps)
  qed
  have "1 / \<bar>q\<bar> \<le> 2 ^ n"
    using lo pos unfolding pe by (simp add: field_simps)
  then have c1: "\<lceil>1 / \<bar>q\<bar>\<rceil> \<le> (2::int) ^ n"
    by (simp add: ceiling_le_iff)
  have "(2::rat) ^ (n - 1) < 1 / \<bar>q\<bar>"
    using hi pos unfolding pe1 by (simp add: field_simps)
  then have c2: "(2::int) ^ (n - 1) < \<lceil>1 / \<bar>q\<bar>\<rceil>"
    by (simp add: less_ceiling_iff)
  have "bitlen (\<lceil>1 / \<bar>q\<bar>\<rceil> - 1) = int n"
    using c1 c2 n0 by (intro bitlen_eqI) simp_all
  with False e0 show ?thesis by (simp add: binary_exponent_def Let_def n_def)
qed

lemma round_half_even_eqI:
  assumes "of_int m - 1 / 2 < q" "q < of_int m + 1 / 2"
  shows "round_half_even q = m"
proof (cases "of_int m \<le> q")
  case True
  then have "\<lfloor>q\<rfloor> = m" using assms by (intro floor_unique) simp_all
  then show ?thesis using assms by (simp add: round_half_even_def Let_def)
next
  case False
  then have "\<lfloor>q\<rfloor> = m - 1" using assms by (intro floor_unique) simp_all
  then show ?thesis using assms False by (simp add: round_half_even_def Let_def)
qed

text \<open>
  Rounding a number in the normal range: when \<open>\<bar>q\<bar>\<close> lies between \<open>2 powi e\<close> and
  \<open>2 powi (e + 1)\<close>, the result is the multiple of \<open>2 powi (e - 52)\<close> nearest to \<open>q\<close>.
\<close>

lemma to_binary64_normal:
  assumes "2 powi e \<le> \<bar>q\<bar>" "\<bar>q\<bar> < 2 powi (e + 1)" "- 1022 \<le> e"
    and "of_int m - 1 / 2 < q / 2 powi (e - 52)" "q / 2 powi (e - 52) < of_int m + 1 / 2"
    and "\<bar>of_int m * 2 powi (e - 52)\<bar> < (2::rat) powi 1024"
  shows "to_binary64 q = Some (of_int m * 2 powi (e - 52))"
proof -
  have "\<not> (2::rat) powi e \<le> 0" by (simp add: not_le)
  with assms(1) have "q \<noteq> 0" by auto
  moreover have "binary_exponent q = e" using assms(1,2) by (rule binary_exponent_eqI)
  moreover have "max (e - 52) (- 1074) = e - 52" using assms(3) by simp
  moreover have "round_half_even (q / 2 powi (e - 52)) = m"
    using assms(4,5) by (rule round_half_even_eqI)
  ultimately show ?thesis using assms(6) by (simp add: to_binary64_def Let_def)
qed

lemma powi_numeral:
  "(2::rat) powi (- numeral k) = 1 / 2 ^ numeral k" "(2::rat) powi (numeral k) = 2 ^ numeral k"
  by (simp_all add: power_int_def field_simps)

text \<open>The six roundings of the specification's example.\<close>

lemma example_wei: "to_binary64 (of_int (150000 * assumedGasPrice)) = Some 150000000000000"
  using to_binary64_normal [of 47 150000000000000 "150000000000000 * 2 ^ 5"]
  by (simp add: assumedGasPrice_def powi_numeral)

lemma example_e18: "to_binary64 (10 ^ 18) = Some 1000000000000000000"
  using to_binary64_normal [of 59 "10 ^ 18" "7812500000000000"]
  by (simp add: powi_numeral)

lemma example_mon:
  "float_div 150000000000000 1000000000000000000 = Some (5534023222112865 / 2 ^ 65)"
  using to_binary64_normal [of "- 13" "3 / 20000" "5534023222112865"]
  by (simp add: float_div_def powi_numeral)

lemma example_priced:
  "float_mul (5534023222112865 / 2 ^ 65) 2500 = Some (6755399441055743 / 2 ^ 54)"
  using to_binary64_normal [of "- 2" "5534023222112865 / 2 ^ 65 * 2500" "6755399441055743"]
  by (simp add: float_mul_def powi_numeral)

lemma example_scale: "to_binary64 (10 ^ 6) = Some 1000000"
  using to_binary64_normal [of 19 "10 ^ 6" "1000000 * 2 ^ 33"]
  by (simp add: powi_numeral)

lemma example_scaled:
  "float_mul (6755399441055743 / 2 ^ 54) 1000000 = Some (6442450943999999 / 2 ^ 34)"
  using to_binary64_normal [of 18 "6755399441055743 / 2 ^ 54 * 1000000" "6442450943999999"]
  by (simp add: float_mul_def powi_numeral)

lemma example_gas_cost: "calculateGasCostInTokenOut (Some 150000) (Some 2500) 6 = 374999"
proof -
  have "gas_cost_float 150000 2500 6 = Some (6442450943999999 / 2 ^ 34)"
    unfolding gas_cost_float_def Let_def
    by (simp only: example_wei example_e18 example_mon example_priced example_scale
        example_scaled Option.bind.simps)
  moreover have "\<lfloor>(6442450943999999 / 2 ^ 34 :: rat)\<rfloor> = 374999"
    by (rule floor_unique) simp_all
  ultimately show ?thesis by (simp add: calculateGasCostInTokenOut_def)
qed

lemma calculateNetAmount_max:
  "calculateNetAmount (Some a) (Some g) = Some (max 0 (a - g))"
  by (simp add: calculateNetAmount_def Let_def max_def)

text \<open>
  Claim C6. On the specification's own example (gasUsed 150,000, price 2500, 6 decimals,
  amountOut 99,500,000) the formula in exact arithmetic gives a gas cost of 375,000, but the
  code, which evaluates it in binary64 floating point, returns 374,999: \<open>1.5e14 / 1e18\<close>
  rounds to a value just below 0.00015, and the two products stay below 0.375 and 375,000.
  The net amount the code reports is therefore 99,125,001. The net amount itself is
  \<open>max(0, amountOut - gasCost)\<close> for every pair of arguments.
\<close>

theorem gas_cost_example_off_by_one:
  "calculateGasCostInTokenOut (Some 150000) (Some 2500) 6 = 374999
   \<and> gas_cost_exact 150000 2500 6 = 375000
   \<and> calculateNetAmount (Some 99500000) (Some (calculateGasCostInTokenOut (Some 150000) (Some 2500) 6))
       = Some 99125001
   \<and> (\<forall>a g. calculateNetAmount (Some a) (Some g) = Some (max 0 (a - g)))"
proof -
  have "gas_cost_exact 150000 2500 6 = 375000"
    by (simp add: gas_cost_exact_def assumedGasPrice_def)
  then show ?thesis
    by (simp add: example_gas_cost calculateNetAmount_max)
qed

section \<open>Properties of the RetryExecutor\<close>


lemma retry_loop_rethrow:
  assumes "attempt \<le> maxA" "fn s = (Inl e, s1)" "attempt = maxA \<or> \<not> sr e"
  shows "retry_loop slp fn maxA maxD mult sr onr le delay attempt s = (Inl e, s1)"
  using assms by (subst retry_loop.simps) auto


lemma retry_once:
  assumes "fst (fn s0) = Inl e" "\<not> or_default (shouldRetry options) defaultShouldRetry e"
    "maxAttempts options \<noteq> Some 0"
  shows "retryWithBackoff slp fn options s0 = fn s0"
proof -
  obtain s1 where f: "fn s0 = (Inl e, s1)" using assms(1) by (cases "fn s0") auto
  have "1 \<le> or_default (maxAttempts options) DEFAULT_maxAttempts"
    using assms(3) by (cases "maxAttempts options") (auto simp: or_default_def DEFAULT_maxAttempts_def)
  then show ?thesis
    unfolding retryWithBackoff_def using f assms(2) by (simp add: retry_loop_rethrow)
qed






text \<open>
  Claim C10. An error whose lowercased message and details contain none of the recognised
  patterns is rejected by the default classifier, and \<open>retryWithBackoff\<close> with default
  options on an operation that throws it equals a single invocation of the operation: the
  error is rethrown after one call, without callback or sleep.
\<close>

theorem unrecognised_error_not_retried:
  assumes "\<forall>p \<in> set recognised_patterns.
             \<not> str_includes (toLowerCase (or_default (message err) [])) p
           \<and> \<not> str_includes (toLowerCase (or_default (details err) [])) p"
  shows "defaultShouldRetry err = False
       \<and> (fst (fn s0) = Inl err \<longrightarrow> retryWithBackoff slp fn no_options s0 = fn s0)"
proof -
  have d: "\<not> defaultShouldRetry err"
    using assms by (simp add: defaultShouldRetry_def recognised_patterns_def Let_def)
  have "retryWithBackoff slp fn no_options s0 = fn s0" if "fst (fn s0) = Inl err"
    using that d by (intro retry_once) (auto simp: no_options_def or_default_def)
  with d show ?thesis by simp
qed

theorem unrecognised_error_not_retried_witness:
  "list_all (\<lambda>p. \<not> str_includes (toLowerCase ''Invalid Signature'') p
                \<and> \<not> str_includes (toLowerCase ''nonce too low'') p) recognised_patterns
   \<and> defaultShouldRetry invalid_signature = False
   \<and> retryWithBackoff tick (scripted_op broken) no_options (0, 0) = (Inl invalid_signature, (1, 0))"
proof -
  have h: "list_all (\<lambda>p. \<not> str_includes (toLowerCase ''Invalid Signature'') p
                \<and> \<not> str_includes (toLowerCase ''nonce too low'') p) recognised_patterns"
    by code_simp
  then have h': "\<forall>p \<in> set recognised_patterns.
             \<not> str_includes (toLowerCase (or_default (message invalid_signature) [])) p
           \<and> \<not> str_includes (toLowerCase (or_default (details invalid_signature) [])) p"
    by (simp add: list_all_iff invalid_signature_def or_default_def)
  show ?thesis
    using h unrecognised_error_not_retried [OF h', of "scripted_op broken" "(0, 0)" tick]
    by (simp add: scripted_op_def broken_def)
qed

section \<open>What the injection can and cannot do\<close>

lemmas method_defs = method1_def method1_probe_def method2_def method3_def method4_def method5_def
  method6_def method6_balance_def method7_def method7_probe_def

lemma no_throw_detectProxyImplementation: "no_throw (detectProxyImplementation cl addr)"
  unfolding detectProxyImplementation_def by (intro no_throw_intros)

lemma no_throw_methods:
  "no_throw (method1 cl token holder amount)"
  "no_throw (method2 cl token holder amount)"
  "no_throw (method3 cl token holder amount)"
  "no_throw (method4 cl token holder amount)"
  "no_throw (method5 cl token holder amount)"
  "no_throw (method6 cl token holder amount)"
  "no_throw (method7 cl impl token holder amount)"
  unfolding method1_def method2_def method3_def method4_def method5_def method6_def method7_def
  by (intro no_throw_intros)+

lemma no_throw_setERC20Balance: "no_throw (setERC20Balance cl token holder amount)"
  unfolding setERC20Balance_def
  by (intro no_throw_bind no_throw_detectProxyImplementation no_throw_or_else no_throw_methods
      no_throw_case_option no_throw_ret)

lemma injector_events [simp]:
  "injector_event (GetStorageAt a k)" "injector_event (SetStorageAt a k v)"
  "injector_event (BalanceOf t h)" "injector_event (HardhatSetBalance a i)"
  "injector_event (ImpersonateAccount a)" "injector_event (StopImpersonatingAccount a)"
  "injector_event (Deal t h i)" "injector_event (Sleep ms)"
  by (simp_all add: injector_event_def)

lemma findBalanceSlot_events:
  "preserves (logged_only injector_event L) (findBalanceSlot cl token holder)"
  unfolding findBalanceSlot_def findBalanceSlot_probe_def Let_def client_defs
  by (intro logged_only_intros) simp_all

lemma detectProxyImplementation_events:
  "preserves (logged_only injector_event L) (detectProxyImplementation cl addr)"
  unfolding detectProxyImplementation_def client_defs
  by (intro logged_only_intros) simp_all

lemma method_events:
  "preserves (logged_only injector_event L) (method1 cl token holder amount)"
  "preserves (logged_only injector_event L) (method2 cl token holder amount)"
  "preserves (logged_only injector_event L) (method3 cl token holder amount)"
  "preserves (logged_only injector_event L) (method4 cl token holder amount)"
  "preserves (logged_only injector_event L) (method5 cl token holder amount)"
  "preserves (logged_only injector_event L) (method6 cl token holder amount)"
  "preserves (logged_only injector_event L) (method7 cl impl token holder amount)"
  unfolding method_defs Let_def client_defs
  by (intro logged_only_intros findBalanceSlot_events; simp)+

lemma setERC20Balance_events:
  "preserves (logged_only injector_event L) (setERC20Balance cl token holder amount)"
  unfolding setERC20Balance_def
  by (intro preserves_intros detectProxyImplementation_events method_events)

text \<open>
  When no \<open>balanceOf\<close> answer for the holder reaches the amount, no method returns and the
  injection reports failure.
\<close>

lemmas returns_none_binds =
  returns_none_bind [of _ "getStorageAt cl a k" for cl a k]
  returns_none_bind [of _ "setStorageAt cl a k v" for cl a k v]
  returns_none_bind [of _ "toHex32 v" for v]
  returns_none_bind [of _ "toHex v" for v]
  returns_none_bind [of _ "sleep ms" for ms]
  returns_none_bind [of _ "hardhat_setBalance cl a v" for cl a v]
  returns_none_bind [of _ "impersonateAccount cl a" for cl a]
  returns_none_bind [of _ "stopImpersonatingAccount cl a" for cl a]
  returns_none_bind [of _ "deal cl t h a" for cl t h a]
  returns_none_bind [of _ "findBalanceSlot cl t h" for cl t h]

lemmas returns_none_rules = returns_none_try returns_none_ret returns_none_for_each
  returns_none_or_else returns_none_case_option returns_none_if_low returns_none_binds

lemma returns_none_method1:
  assumes low: "\<And>n b n'. c_balanceOf cl token holder n = (Inr b, n') \<Longrightarrow> b < amount"
  shows "returns_none (method1 cl token holder amount)"
  unfolding method_defs Let_def
  by (intro returns_none_rules returns_none_balanceOf [OF low])

lemma returns_none_method2:
  assumes low: "\<And>n b n'. c_balanceOf cl token holder n = (Inr b, n') \<Longrightarrow> b < amount"
  shows "returns_none (method2 cl token holder amount)"
  unfolding method_defs Let_def
  by (intro returns_none_rules returns_none_balanceOf [OF low])

lemma returns_none_method3:
  assumes low: "\<And>n b n'. c_balanceOf cl token holder n = (Inr b, n') \<Longrightarrow> b < amount"
  shows "returns_none (method3 cl token holder amount)"
  unfolding method_defs Let_def
  by (intro returns_none_rules returns_none_balanceOf [OF low])

lemma returns_none_method4:
  assumes low: "\<And>n b n'. c_balanceOf cl token holder n = (Inr b, n') \<Longrightarrow> b < amount"
  shows "returns_none (method4 cl token holder amount)"
  unfolding method_defs Let_def
  by (intro returns_none_rules returns_none_balanceOf [OF low])

lemma returns_none_method5:
  assumes low: "\<And>n b n'. c_balanceOf cl token holder n = (Inr b, n') \<Longrightarrow> b < amount"
  shows "returns_none (method5 cl token holder amount)"
  unfolding method_defs Let_def
  by (intro returns_none_rules returns_none_balanceOf [OF low])

lemma returns_none_method6:
  assumes low: "\<And>n b n'. c_balanceOf cl token holder n = (Inr b, n') \<Longrightarrow> b < amount"
  shows "returns_none (method6 cl token holder amount)"
  unfolding method_defs Let_def
  by (intro returns_none_rules returns_none_balanceOf [OF low])

lemma returns_none_method7:
  assumes low: "\<And>n b n'. c_balanceOf cl token holder n = (Inr b, n') \<Longrightarrow> b < amount"
  shows "returns_none (method7 cl impl token holder amount)"
  unfolding method_defs Let_def
  by (intro returns_none_rules returns_none_balanceOf [OF low])

lemmas returns_none_methods = returns_none_method1 returns_none_method2 returns_none_method3
  returns_none_method4 returns_none_method5 returns_none_method6 returns_none_method7

lemma setERC20Balance_fails:
  assumes low: "\<And>n b n'. c_balanceOf cl token holder n = (Inr b, n') \<Longrightarrow> b < amount"
  shows "fst (setERC20Balance cl token holder amount w) = Inr False"
proof -
  obtain impl w0 where d: "detectProxyImplementation cl token w = (Inr impl, w0)"
    using no_throwD [OF no_throw_detectProxyImplementation, of cl token w] by auto
  let ?chain = "or_else (method1 cl token holder amount)
          (or_else (method2 cl token holder amount)
          (or_else (method3 cl token holder amount)
          (or_else (method4 cl token holder amount)
          (or_else (method5 cl token holder amount)
          (or_else (method6 cl token holder amount)
                   (method7 cl impl token holder amount))))))"
  have "no_throw ?chain"
    by (intro no_throw_or_else no_throw_methods)
  moreover have "returns_none ?chain"
    by (intro returns_none_or_else returns_none_methods [OF low])
  ultimately have "fst (?chain w0) = Inr None"
    by (rule none_if_returns_none)
  then show ?thesis
    using d by (cases "?chain w0") (simp add: setERC20Balance_def bind_app ret_app)
qed

section \<open>Properties of the BalanceInjector\<close>

lemma no_throw_method1_probe: "no_throw (method1_probe cl token holder amount slot)"
  unfolding method1_probe_def by (intro no_throw_intros)

lemma method1_is_loop:
  "method1 cl token holder amount w =
   for_each COMMON_SLOTS_FOR_BALANCE_SET (method1_probe cl token holder amount) w"
proof -
  have "no_throw (for_each COMMON_SLOTS_FOR_BALANCE_SET (method1_probe cl token holder amount))"
    by (intro no_throw_intros no_throw_method1_probe)
  then obtain x where
    "fst (for_each COMMON_SLOTS_FOR_BALANCE_SET (method1_probe cl token holder amount) w) = Inr x"
    by (auto simp: no_throw_def)
  then show ?thesis
    by (cases "for_each COMMON_SLOTS_FOR_BALANCE_SET (method1_probe cl token holder amount) w")
      (simp add: method1_def try_catch_def)
qed







section \<open>A failed injection\<close>

lemmas opaque_simps = prog_apps fork_apps opaque_env_def Let_def

lemma opaque_method1:
  assumes "cache_empty w"
  shows "fst (method1 opaque_env TOKEN ACCOUNT 5 w) = Inr None
       \<and> cache_empty (snd (method1 opaque_env TOKEN ACCOUNT 5 w))"
  unfolding method1_is_loop
  using assms by (intro for_each_none_inv [where I = cache_empty and s = w])
     (simp add: method1_probe_def opaque_simps cache_empty_def)

lemma opaque_method2:
  assumes "cache_empty w"
  shows "fst (method2 opaque_env TOKEN ACCOUNT 5 w) = Inr None
       \<and> cache_empty (snd (method2 opaque_env TOKEN ACCOUNT 5 w))"
  using assms by (simp add: method2_def opaque_simps cache_empty_def)

lemma opaque_method3:
  assumes "cache_empty w"
  shows "fst (method3 opaque_env TOKEN ACCOUNT 5 w) = Inr None
       \<and> cache_empty (snd (method3 opaque_env TOKEN ACCOUNT 5 w))"
  using assms by (simp add: method3_def opaque_simps cache_empty_def)

lemma opaque_method4:
  assumes "cache_empty w"
  shows "fst (method4 opaque_env TOKEN ACCOUNT 5 w) = Inr None
       \<and> slot_overwritten (snd (method4 opaque_env TOKEN ACCOUNT 5 w))"
  using assms by (simp add: method4_def opaque_simps cache_empty_def slot_overwritten_def)

lemma candidates_small: "x \<in> set COMMON_SLOTS_FOR_BALANCE_SET \<Longrightarrow> x \<le> 255"
  by (auto simp: COMMON_SLOTS_FOR_BALANCE_SET_def)

lemma opaque_method5:
  assumes "slot_overwritten w"
  shows "fst (method5 opaque_env TOKEN ACCOUNT 5 w) = Inr None
       \<and> slot_overwritten (snd (method5 opaque_env TOKEN ACCOUNT 5 w))"
proof -
  have "fst (for_each COMMON_SLOTS_FOR_BALANCE_SET (findBalanceSlot_probe opaque_env TOKEN ACCOUNT) w) = Inr None
      \<and> slot_overwritten (snd (for_each COMMON_SLOTS_FOR_BALANCE_SET (findBalanceSlot_probe opaque_env TOKEN ACCOUNT) w))"
    using assms by (intro for_each_none_inv [where I = slot_overwritten and s = w])
       (auto simp: findBalanceSlot_probe_def opaque_simps slot_overwritten_def testAmount_def
          toy_hash_def ERC20_NAMESPACE_ID_def dest!: candidates_small)
  then show ?thesis
    using assms
    by (cases "for_each COMMON_SLOTS_FOR_BALANCE_SET (findBalanceSlot_probe opaque_env TOKEN ACCOUNT) w")
       (simp add: method5_def findBalanceSlot_def slot_overwritten_def bind_app try_app ret_app cache_get_app)
qed

lemma opaque_method6:
  assumes "slot_overwritten w"
  shows "fst (method6 opaque_env TOKEN ACCOUNT 5 w) = Inr None
       \<and> slot_overwritten (snd (method6 opaque_env TOKEN ACCOUNT 5 w))"
proof -
  have inner: "fst (for_each [0, 1, 2, 3, 4, 5] (method6_balance opaque_env TOKEN ACCOUNT 5) s) = Inr None
      \<and> slot_overwritten (snd (for_each [0, 1, 2, 3, 4, 5] (method6_balance opaque_env TOKEN ACCOUNT 5) s))"
    if "slot_overwritten s" for s
    using that
    by (intro for_each_none_inv [where I = slot_overwritten and s = s])
       (auto simp: method6_balance_def opaque_simps slot_overwritten_def toy_hash_def
          ERC20_NAMESPACE_ID_def TOKEN_def ACCOUNT_def)
  have outer: "fst (for_each [2, 3, 4, 5, 6, 7, 8] (\<lambda>supplySlot.
          try_catch
            (let largeTotalSupply = 5 * 1000 in
             bind (toHex32 largeTotalSupply) (\<lambda>v.
             bind (setStorageAt opaque_env TOKEN supplySlot v) (\<lambda>_.
             for_each [0, 1, 2, 3, 4, 5] (method6_balance opaque_env TOKEN ACCOUNT 5))))
            (\<lambda>_. ret None)) w) = Inr None
      \<and> slot_overwritten (snd (for_each [2, 3, 4, 5, 6, 7, 8] (\<lambda>supplySlot.
          try_catch
            (let largeTotalSupply = 5 * 1000 in
             bind (toHex32 largeTotalSupply) (\<lambda>v.
             bind (setStorageAt opaque_env TOKEN supplySlot v) (\<lambda>_.
             for_each [0, 1, 2, 3, 4, 5] (method6_balance opaque_env TOKEN ACCOUNT 5))))
            (\<lambda>_. ret None)) w))"
    using assms
  proof (intro for_each_none_inv [where I = slot_overwritten and s = w], goal_cases)
    case (1 x s)
    define s1 where "s1 = snd (setStorageAt opaque_env TOKEN x 5000 s)"
    have s1: "slot_overwritten s1"
      using 1 by (auto simp: s1_def opaque_simps slot_overwritten_def toy_hash_def
          ERC20_NAMESPACE_ID_def TOKEN_def ACCOUNT_def)
    have "setStorageAt opaque_env TOKEN x 5000 s = (Inr (), s1)"
      by (simp add: s1_def opaque_simps)
    then show ?case
      using inner [OF s1]
      by (cases "for_each [0, 1, 2, 3, 4, 5] (method6_balance opaque_env TOKEN ACCOUNT 5) s1")
         (simp add: Let_def bind_app try_app ret_app toHex32_app)
  next
    case 2
    then show ?case by simp
  qed
  then show ?thesis
    by (cases "for_each [2, 3, 4, 5, 6, 7, 8] (\<lambda>supplySlot.
          try_catch
            (let largeTotalSupply = 5 * 1000 in
             bind (toHex32 largeTotalSupply) (\<lambda>v.
             bind (setStorageAt opaque_env TOKEN supplySlot v) (\<lambda>_.
             for_each [0, 1, 2, 3, 4, 5] (method6_balance opaque_env TOKEN ACCOUNT 5))))
            (\<lambda>_. ret None)) w")
       (simp add: method6_def try_app)
qed

lemma opaque_detect:
  "fst (detectProxyImplementation opaque_env TOKEN fresh_world) = Inr None
   \<and> cache_empty (snd (detectProxyImplementation opaque_env TOKEN fresh_world))"
  by (simp add: detectProxyImplementation_def PROXY_SLOTS_def opaque_simps cache_empty_def
      fresh_world_def fresh_fork_def)

text \<open>
  Claim C1 fails on the code. For a token whose balances no probe reaches, the injection of
  5 units into a fresh fork returns false, yet the storage slot that method 4 wrote (the
  ERC-7201 balances slot of the holder) holds 5 afterwards instead of its former 0: methods
  1, 5 and 7 write the original value back when a probe misses, methods 4 and 6 and the
  search of \<open>findBalanceSlot\<close> do not.
\<close>

theorem failed_injection_leaves_storage_changed:
  "fst (setERC20Balance opaque_env TOKEN ACCOUNT 5 fresh_world) = Inr False
   \<and> f_storage (node fresh_world) (TOKEN, toy_hash ACCOUNT ERC20_NAMESPACE_ID) = 0
   \<and> f_storage (node (snd (setERC20Balance opaque_env TOKEN ACCOUNT 5 fresh_world)))
        (TOKEN, toy_hash ACCOUNT ERC20_NAMESPACE_ID) = 5"
proof -
  define w0 where "w0 = snd (detectProxyImplementation opaque_env TOKEN fresh_world)"
  define w1 where "w1 = snd (method1 opaque_env TOKEN ACCOUNT 5 w0)"
  define w2 where "w2 = snd (method2 opaque_env TOKEN ACCOUNT 5 w1)"
  define w3 where "w3 = snd (method3 opaque_env TOKEN ACCOUNT 5 w2)"
  define w4 where "w4 = snd (method4 opaque_env TOKEN ACCOUNT 5 w3)"
  define w5 where "w5 = snd (method5 opaque_env TOKEN ACCOUNT 5 w4)"
  define w6 where "w6 = snd (method6 opaque_env TOKEN ACCOUNT 5 w5)"
  have d: "detectProxyImplementation opaque_env TOKEN fresh_world = (Inr None, w0)"
    and c0: "cache_empty w0"
    using opaque_detect by (simp_all add: w0_def prod_eq_iff)
  have m1: "fst (method1 opaque_env TOKEN ACCOUNT 5 w0) = Inr None" and c1: "cache_empty w1"
    using opaque_method1 [OF c0] by (simp_all add: w1_def)
  have m2: "fst (method2 opaque_env TOKEN ACCOUNT 5 w1) = Inr None" and c2: "cache_empty w2"
    using opaque_method2 [OF c1] by (simp_all add: w2_def)
  have m3: "fst (method3 opaque_env TOKEN ACCOUNT 5 w2) = Inr None" and c3: "cache_empty w3"
    using opaque_method3 [OF c2] by (simp_all add: w3_def)
  have m4: "fst (method4 opaque_env TOKEN ACCOUNT 5 w3) = Inr None" and c4: "slot_overwritten w4"
    using opaque_method4 [OF c3] by (simp_all add: w4_def)
  have m5: "fst (method5 opaque_env TOKEN ACCOUNT 5 w4) = Inr None" and c5: "slot_overwritten w5"
    using opaque_method5 [OF c4] by (simp_all add: w5_def)
  have m6: "fst (method6 opaque_env TOKEN ACCOUNT 5 w5) = Inr None" and c6: "slot_overwritten w6"
    using opaque_method6 [OF c5] by (simp_all add: w6_def)
  have "setERC20Balance opaque_env TOKEN ACCOUNT 5 fresh_world = (Inr False, w6)"
    unfolding setERC20Balance_def
    by (simp add: bind_app d or_else_skip m1 m2 m3 m4 m5 m6 method7_def ret_app
        flip: w1_def w2_def w3_def w4_def w5_def w6_def)
  then show ?thesis
    using c6 by (simp add: slot_overwritten_def fresh_world_def fresh_fork_def)
qed

section \<open>A repeated injection\<close>

lemmas inject_defs = setERC20Balance_def detectProxyImplementation_def PROXY_SLOTS_def
  method_defs COMMON_SLOTS_FOR_BALANCE_SET_def

lemmas eval_simps = prog_apps fork_apps scenario_defs Let_def

lemma first_injection:
  "setERC20Balance slot1_env TOKEN ACCOUNT 10 fresh_world =
     (Inr True,
      \<lparr>node = fresh_fork\<lparr>f_storage := (\<lambda>_. 0)((7, 3764000) := 0, (7, 3764001) := 10)\<rparr>,
       log = [BalanceOf 7 2764, Sleep 1000, SetStorageAt 7 3764001 10, GetStorageAt 7 3764001,
              SetStorageAt 7 3764000 0, BalanceOf 7 2764, Sleep 1000, SetStorageAt 7 3764000 10,
              GetStorageAt 7 3764000,
              GetStorageAt 7 (PROXY_SLOTS ! 2), GetStorageAt 7 (PROXY_SLOTS ! 1),
              GetStorageAt 7 (PROXY_SLOTS ! 0)],
       cache = [7 \<mapsto> 1]\<rparr>)"
  by (simp add: inject_defs eval_simps)

text \<open>
  Claim C2 fails on the code. For a token that keeps its balances at slot 1, a first
  injection of 10 units succeeds and caches slot 1. A second injection, of 20 units, does
  not look at the cache: it probes from slot 0 again and performs three storage writes
  (slot 0 written and restored, then slot 1), not one write to the cached slot.
\<close>

theorem cache_not_consulted:
  "fst (setERC20Balance slot1_env TOKEN ACCOUNT 10 fresh_world) = Inr True
   \<and> cache after_first_injection TOKEN = Some 1
   \<and> fst (setERC20Balance slot1_env TOKEN ACCOUNT 20 after_first_injection) = Inr True
   \<and> filter is_write (rev (log (snd (setERC20Balance slot1_env TOKEN ACCOUNT 20 after_first_injection))))
       = [SetStorageAt TOKEN (toy_hash ACCOUNT 0) 20, SetStorageAt TOKEN (toy_hash ACCOUNT 0) 0,
          SetStorageAt TOKEN (toy_hash ACCOUNT 1) 20]"
proof -
  have second: "setERC20Balance slot1_env TOKEN ACCOUNT 20 after_first_injection =
     (Inr True,
      \<lparr>node = fresh_fork\<lparr>f_storage := (\<lambda>_. 0)((7, 3764000) := 0, (7, 3764001) := 20)\<rparr>,
       log = [BalanceOf 7 2764, Sleep 1000, SetStorageAt 7 3764001 20, GetStorageAt 7 3764001,
              SetStorageAt 7 3764000 0, BalanceOf 7 2764, Sleep 1000, SetStorageAt 7 3764000 20,
              GetStorageAt 7 3764000,
              GetStorageAt 7 (PROXY_SLOTS ! 2), GetStorageAt 7 (PROXY_SLOTS ! 1),
              GetStorageAt 7 (PROXY_SLOTS ! 0)],
       cache = [7 \<mapsto> 1]\<rparr>)"
    unfolding after_first_injection_def first_injection
    by (simp add: inject_defs eval_simps)
  have c: "cache after_first_injection TOKEN = Some 1"
    unfolding after_first_injection_def first_injection by (simp add: TOKEN_def)
  show ?thesis
    unfolding second first_injection c
    by (simp add: is_write_def toy_hash_def TOKEN_def ACCOUNT_def PROXY_SLOTS_def)
qed

section \<open>Properties of the SwapExecutor\<close>




lemma not_approve_events [simp]:
  "not_approve (GetStorageAt a k)" "not_approve (SetStorageAt a k v)"
  "not_approve (BalanceOf t h)" "not_approve (Allowance t h s)" "not_approve (HardhatSetBalance a i)"
  "not_approve (ImpersonateAccount a)" "not_approve (StopImpersonatingAccount a)"
  "not_approve (Deal t h i)" "not_approve (WaitForTransactionReceipt n)"
  "not_approve (SetBalance a i)" "not_approve (GetBalance a)" "not_approve (GetBytecode a)"
  "not_approve (SendTransaction tr)" "not_approve (Call tr i)" "not_approve (Reset i)"
  "not_approve GetBlockNumber" "not_approve (Sleep ms)"
  by (simp_all add: not_approve_def)






section \<open>A submission that times out once\<close>

lemma defaultShouldRetry_node_timeout: "defaultShouldRetry node_timeout"
  by code_simp

lemma not_timeout_node: "is_timeout_message node_timeout"
  by code_simp


lemmas swap_defs = simulate_quote_def simulate_with_reset_def simulateTransaction_def execute_swap_def
  fund_account_def submit_swap_def executeTransactionWithRetry_def forkToBlock_def
  resetForkWithRetry_def retryWithBackoff_def setNativeBalance_def approveERC20_def
  getTokenBalance_def swap_tx_def isNativeToken_def NATIVE_TOKEN_ADDRESS_def js_or_def
  or_default_def str_or_def DEFAULT_maxAttempts_def DEFAULT_maxDelay_def DEFAULT_backoffMultiplier_def
  DEFAULT_initialDelay_def DEFAULT_TIMEOUT_def sleep_for_def balance_setup_failed_def

text \<open>
  Claim C3 fails on the code. The node throws a timeout on the first submission of the swap
  and accepts the second. The retry happens inside \<open>executeTransactionWithRetry\<close>, which
  sleeps and resubmits: between the two submissions the fork is not reset. The only reset
  is the one before the simulation. The recorded gas and output are those of the second
  submission. (The reset in \<open>runComparison\<close> sits in a handler that is never entered,
  because \<open>simulateTransaction\<close> catches every error and returns.)
\<close>

theorem timeout_retry_without_reset:
  "fst (simulate_quote swap_env no_prices eighteen_decimals NATIVE_TOKEN_ADDRESS OUT_TOKEN quote0
         stalling_world)
     = Inr \<lparr>simulation = \<lparr>sr_status = StatusSuccess, sr_amountOut = 99500000, sr_error = None,
                           sr_gasUsed = Some 150000\<rparr>,
            gasCostInTokenOut = 0, netAmount = 99500000\<rparr>
   \<and> filter is_reset_or_send
         (rev (log (snd (simulate_quote swap_env no_prices eighteen_decimals NATIVE_TOKEN_ADDRESS
                           OUT_TOKEN quote0 stalling_world))))
     = [Reset 1000, SendTransaction (swap_tx swap_env swapData0),
        SendTransaction (swap_tx swap_env swapData0)]"
  by (simp add: swap_defs retry_loop.simps stalling_world_def eval_simps
      defaultShouldRetry_node_timeout pay_out_def no_prices_def calculateGasCostInTokenOut_def
      calculateNetAmount_def is_reset_or_send_def)












section \<open>When the injection fails\<close>

lemma injector_event_not_submission: "injector_event e \<Longrightarrow> \<not> is_approve_or_send e"
  by (cases e) (simp_all add: injector_event_def is_approve_or_send_def)

lemma simulate_failed_injection:
  assumes "\<not> isNativeToken tokenIn"
    and "setERC20Balance cl tokenIn (TEST_ACCOUNT cl) (amountIn * 10) w = (Inr False, w1)"
    and "balanceOf cl tokenIn (TEST_ACCOUNT cl) w1 = (v, w2)"
  shows "simulateTransaction cl tokenIn tokenOut amountIn swapData w =
     (Inr \<lparr>sr_status = StatusError, sr_amountOut = 0,
           sr_error = Some (case v of
                              Inl e \<Rightarrow> str_or (message e) ''Unknown error''
                            | Inr actual \<Rightarrow> ''Failed to set token balance for simulation''),
           sr_gasUsed = None\<rparr>, w2)"
  using assms
  by (cases v)
     (simp_all add: simulateTransaction_def fund_account_def Let_def try_app bind_app ret_app
        balance_setup_failed_def)

lemma injection_and_check_events:
  assumes "setERC20Balance cl tokenIn holder amount w = (r, w1)"
    and "balanceOf cl tokenIn holder w1 = (v, w2)"
  shows "\<exists>evs. log w2 = BalanceOf tokenIn holder # evs @ log w \<and> list_all injector_event evs"
proof -
  have "logged_only injector_event (log w) (snd (setERC20Balance cl tokenIn holder amount w))"
    using setERC20Balance_events [of "log w" cl tokenIn holder amount] logged_only_refl [of injector_event w]
    by (simp add: preserves_def)
  then obtain evs where "log w1 = evs @ log w" "list_all injector_event evs"
    using assms(1) by (auto simp: logged_only_def)
  moreover have "log w2 = BalanceOf tokenIn holder # log w1"
    using assms(2) by (auto simp: balanceOf_def request_def split: prod.splits)
  ultimately show ?thesis by simp
qed

lemma filter_injector_events:
  assumes "list_all injector_event evs"
  shows "filter is_approve_or_send evs = []"
  using assms by (induction evs) (auto dest: injector_event_not_submission)

text \<open>
  Claim C8, amended. The injection never throws. For a sample with an ERC20 input token in
  which every strategy fails, so that the injection returns false, the simulation submits
  neither an approval nor a swap transaction (its requests are those of the injection and
  the \<open>balanceOf\<close> read that follows it), and its result has status error and output 0. The
  error message is exactly \<open>Failed to set token balance for simulation\<close> when that read
  returns; when the read throws, the message is the read's own error message, or
  \<open>Unknown error\<close> if it has none.
\<close>

theorem failed_injection_is_reported:
  assumes "\<not> isNativeToken tokenIn"
    and "setERC20Balance cl tokenIn (TEST_ACCOUNT cl) (amountIn * 10) w = (Inr False, w1)"
    and "balanceOf cl tokenIn (TEST_ACCOUNT cl) w1 = (v, w2)"
  shows "(\<exists>b w'. setERC20Balance cl token holder amount w0 = (Inr b, w'))
       \<and> simulateTransaction cl tokenIn tokenOut amountIn swapData w =
           (Inr \<lparr>sr_status = StatusError, sr_amountOut = 0,
                 sr_error = Some (case v of
                                    Inl e \<Rightarrow> str_or (message e) ''Unknown error''
                                  | Inr actual \<Rightarrow> ''Failed to set token balance for simulation''),
                 sr_gasUsed = None\<rparr>, w2)
       \<and> (\<exists>evs. log w2 = evs @ log w \<and> filter is_approve_or_send evs = [])"
proof -
  have "\<exists>b w'. setERC20Balance cl token holder amount w0 = (Inr b, w')"
    using no_throwD [OF no_throw_setERC20Balance, of cl token holder amount w0] by blast
  moreover obtain evs where
    "log w2 = BalanceOf tokenIn (TEST_ACCOUNT cl) # evs @ log w" "list_all injector_event evs"
    using injection_and_check_events [OF assms(2,3)] by blast
  then have "log w2 = (BalanceOf tokenIn (TEST_ACCOUNT cl) # evs) @ log w
             \<and> filter is_approve_or_send (BalanceOf tokenIn (TEST_ACCOUNT cl) # evs) = []"
    by (simp add: filter_injector_events is_approve_or_send_def)
  then have "\<exists>evs. log w2 = evs @ log w \<and> filter is_approve_or_send evs = []"
    by blast
  ultimately show ?thesis
    using simulate_failed_injection [OF assms] by blast
qed

lemma opaque_low:
  "c_balanceOf opaque_env t h n = (Inr b, n') \<Longrightarrow> b < 1000000 * 10"
  by (auto simp: opaque_env_def fork_env_def fork_balanceOf_def ret_def)

lemma reverting_low:
  "c_balanceOf reverting_env t h n = (Inr b, n') \<Longrightarrow> b < 1000000 * 10"
  by (auto simp: reverting_env_def fork_env_def fork_balanceOf_def throw_def)

theorem failed_injection_is_reported_witness:
  "\<not> isNativeToken TOKEN
   \<and> fst (setERC20Balance opaque_env TOKEN ACCOUNT (1000000 * 10) fresh_world) = Inr False
   \<and> fst (simulateTransaction opaque_env TOKEN OUT_TOKEN 1000000 swapData0 fresh_world) =
       Inr \<lparr>sr_status = StatusError, sr_amountOut = 0,
            sr_error = Some ''Failed to set token balance for simulation'', sr_gasUsed = None\<rparr>
   \<and> filter is_approve_or_send
        (log (snd (simulateTransaction opaque_env TOKEN OUT_TOKEN 1000000 swapData0 fresh_world))) = []"
proof -
  define w1 where "w1 = snd (setERC20Balance opaque_env TOKEN ACCOUNT (1000000 * 10) fresh_world)"
  define w2 where "w2 = w1\<lparr>log := BalanceOf TOKEN ACCOUNT # log w1\<rparr>"
  have acct: "TEST_ACCOUNT opaque_env = ACCOUNT"
    by (simp add: opaque_env_def fork_TEST_ACCOUNT ACCOUNT_def)
  have erc20: "\<not> isNativeToken TOKEN"
    by (simp add: isNativeToken_def NATIVE_TOKEN_ADDRESS_def TOKEN_def)
  have f: "fst (setERC20Balance opaque_env TOKEN ACCOUNT (1000000 * 10) fresh_world) = Inr False"
    by (rule setERC20Balance_fails) (rule opaque_low)
  then have fails: "setERC20Balance opaque_env TOKEN (TEST_ACCOUNT opaque_env) (1000000 * 10) fresh_world
                      = (Inr False, w1)"
    by (simp add: w1_def acct prod_eq_iff)
  have ver: "balanceOf opaque_env TOKEN (TEST_ACCOUNT opaque_env) w1 = (Inr 0, w2)"
    unfolding acct by (simp add: w2_def opaque_env_def fork_balanceOf_app)
  have "simulateTransaction opaque_env TOKEN OUT_TOKEN 1000000 swapData0 fresh_world =
           (Inr \<lparr>sr_status = StatusError, sr_amountOut = 0,
                 sr_error = Some ''Failed to set token balance for simulation'',
                 sr_gasUsed = None\<rparr>, w2)
        \<and> (\<exists>evs. log w2 = evs @ log fresh_world \<and> filter is_approve_or_send evs = [])"
    using failed_injection_is_reported [OF erc20 fails ver, of TOKEN ACCOUNT 0 fresh_world OUT_TOKEN swapData0]
    by simp
  then show ?thesis
    using erc20 f by (auto simp: fresh_world_def)
qed

theorem failed_injection_is_reported_counterexample:
  "\<not> isNativeToken TOKEN
   \<and> fst (setERC20Balance reverting_env TOKEN ACCOUNT (1000000 * 10) fresh_world) = Inr False
   \<and> fst (simulateTransaction reverting_env TOKEN OUT_TOKEN 1000000 swapData0 fresh_world) =
       Inr \<lparr>sr_status = StatusError, sr_amountOut = 0,
            sr_error = Some ''execution reverted'', sr_gasUsed = None\<rparr>
   \<and> ''execution reverted'' \<noteq> ''Failed to set token balance for simulation''"
proof -
  define w1 where "w1 = snd (setERC20Balance reverting_env TOKEN ACCOUNT (1000000 * 10) fresh_world)"
  define w2 where "w2 = w1\<lparr>log := BalanceOf TOKEN ACCOUNT # log w1\<rparr>"
  have acct: "TEST_ACCOUNT reverting_env = ACCOUNT"
    by (simp add: reverting_env_def fork_TEST_ACCOUNT ACCOUNT_def)
  have erc20: "\<not> isNativeToken TOKEN"
    by (simp add: isNativeToken_def NATIVE_TOKEN_ADDRESS_def TOKEN_def)
  have f: "fst (setERC20Balance reverting_env TOKEN ACCOUNT (1000000 * 10) fresh_world) = Inr False"
    by (rule setERC20Balance_fails) (rule reverting_low)
  then have fails: "setERC20Balance reverting_env TOKEN (TEST_ACCOUNT reverting_env) (1000000 * 10)
                      fresh_world = (Inr False, w1)"
    by (simp add: w1_def acct prod_eq_iff)
  have ver: "balanceOf reverting_env TOKEN (TEST_ACCOUNT reverting_env) w1 = (Inl execution_reverted, w2)"
    unfolding acct by (simp add: w2_def reverting_env_def fork_balanceOf_app)
  have "simulateTransaction reverting_env TOKEN OUT_TOKEN 1000000 swapData0 fresh_world =
           (Inr \<lparr>sr_status = StatusError, sr_amountOut = 0,
                 sr_error = Some ''execution reverted'', sr_gasUsed = None\<rparr>, w2)"
    using simulate_failed_injection [OF erc20 fails ver, of OUT_TOKEN swapData0]
    by (simp add: execution_reverted_def str_or_def)
  then show ?thesis
    using erc20 f by simp
qed

section \<open>Funding and approval\<close>





end
